theory Spec2Isabelle
  imports Main
begin

section \<open>Stage 1 of the match-outcome pipeline (\<open>src/pipeline_stage1.py\<close>)\<close>

text \<open>
  The script reads \<open>MATCHES.csv\<close> into a pandas DataFrame, builds the working table
  \<open>X\<close>, drops unusable rows, encodes the label, adds the difference features and the
  partition year, splits by year, prints four diagnostic lines and writes
  \<open>data/stage1_features.csv\<close>. The model follows \<open>main\<close> line by line. A DataFrame
  is a list of column names with a list of rows; a row carries its index label and maps a
  column name to a value. Values are the ones pandas holds in these columns.
\<close>

subsection \<open>Values\<close>

text \<open>
  \<open>NA\<close> stands for every missing marker of pandas (\<open>NaN\<close>, \<open>None\<close>, \<open>NaT\<close>,
  \<open>pd.NA\<close>): \<open>dropna\<close>, \<open>notna\<close>, \<open>fillna\<close> and \<open>to_numeric\<close> treat them alike.
  \<open>Txt\<close> is a Python string, \<open>Num\<close> a number as \<open>read_csv\<close> parsed it (the type
  \<open>'n\<close> of numbers is left open: the script never inspects one), \<open>Stamp\<close> a parsed
  timestamp (type \<open>'d\<close>), \<open>Whole\<close> an integer of an integer column.
\<close>

datatype ('n, 'd) cell = NA | Txt string | Num 'n | Stamp 'd | Whole int

fun isna :: "('n, 'd) cell \<Rightarrow> bool" where
  "isna NA = True"
| "isna _ = False"

type_synonym ('n, 'd) row = "string \<Rightarrow> ('n, 'd) cell"

record ('n, 'd) frame =
  columns :: "string list"
  rows :: "(nat \<times> ('n, 'd) row) list"

text \<open>A column computed row by row: the index labels stay, each row is transformed.\<close>

definition map_rows ::
  "(('n, 'd) row \<Rightarrow> ('n, 'd) row) \<Rightarrow> (nat \<times> ('n, 'd) row) list \<Rightarrow> (nat \<times> ('n, 'd) row) list" where
  "map_rows f rs = map (\<lambda>(i, r). (i, f r)) rs"

text \<open>
  The functions of pandas and Python that the script calls on single values and that are
  not defined by the script itself. They are parameters of the model: every theorem holds
  for every choice of them, so for every version of pandas and, for each file, for the date
  format that pandas infers from its column.
  \<^item> \<open>date_column\<close>: what \<open>pd.to_datetime(column, errors="coerce")\<close> makes of the
    column as a whole (see \<open>date_kind\<close>).
  \<^item> \<open>to_datetime\<close>: the same call on one value of the column that is not missing;
    \<open>None\<close> when the value does not parse (\<open>NaT\<close>).
  \<^item> \<open>keeps_na\<close>: whether \<open>astype(str)\<close> keeps a missing value missing (pandas 3)
    or turns it into the text \<open>nan\<close> (pandas before 3.0, on an object column).
  \<^item> \<open>dt_year\<close>: \<open>.dt.year\<close> of a timestamp.
  \<^item> \<open>py_str\<close>: \<open>str(v)\<close> of a value that is neither missing nor a string.
  \<^item> \<open>to_numeric\<close>: \<open>pd.to_numeric(v, errors="coerce")\<close> on a value that is
    neither missing nor a number; \<open>None\<close> when it does not parse (\<open>NaN\<close>).
  \<^item> \<open>subtract\<close>: the difference of two numbers.
\<close>

text \<open>
  The column that \<open>pd.to_datetime(..., errors="coerce")\<close> returns: a datetime column
  (\<open>Datetimes\<close>), the usual case; an object column of datetime objects
  (\<open>Objects\<close>: pandas 2 on values with mixed UTC offsets), on which the accessor
  \<open>.dt\<close> raises \<open>AttributeError\<close>; or no column at all (\<open>Refused\<close>: pandas 3
  raises \<open>ValueError\<close> on such values).
\<close>

datatype date_kind = Datetimes | Objects | Refused

record ('n, 'd) pandas =
  date_column :: "('n, 'd) cell list \<Rightarrow> date_kind"
  to_datetime :: "('n, 'd) cell \<Rightarrow> 'd option"
  keeps_na :: bool
  dt_year :: "'d \<Rightarrow> int"
  py_str :: "('n, 'd) cell \<Rightarrow> string"
  to_numeric :: "('n, 'd) cell \<Rightarrow> 'n option"
  subtract :: "'n \<Rightarrow> 'n \<Rightarrow> 'n"

subsection \<open>Strings\<close>

text \<open>
  Strings are lists of 8-bit characters; \<open>str.upper\<close> and the regular expression's
  \<open>\d\<close> are modelled on ASCII: a lower-case ASCII letter is moved to its upper-case
  letter, every other character is kept, and a digit is one of \<open>0\<close> .. \<open>9\<close>.
\<close>

definition upper_char :: "char \<Rightarrow> char" where
  "upper_char c =
     (case map_of (zip ''abcdefghijklmnopqrstuvwxyz'' ''ABCDEFGHIJKLMNOPQRSTUVWXYZ'') c of
        Some u \<Rightarrow> u
      | None \<Rightarrow> c)"

definition upper :: "string \<Rightarrow> string" where
  "upper s = map upper_char s"

definition isdigit :: "char \<Rightarrow> bool" where
  "isdigit c = (let n = (of_char c :: nat) in 48 \<le> n \<and> n \<le> 57)"

definition startswith :: "string \<Rightarrow> string \<Rightarrow> bool" where
  "startswith s p = (take (length p) s = p)"

text \<open>
  \<open>str.extract(r"(\d{4})")[0]\<close>: the first four consecutive digits, scanning from the
  left; \<open>None\<close> when the string has no such run.
\<close>

fun extract4 :: "string \<Rightarrow> string option" where
  "extract4 [] = None"
| "extract4 (c # cs) =
     (if 4 \<le> length (c # cs) \<and> list_all isdigit (take 4 (c # cs))
      then Some (take 4 (c # cs)) else extract4 cs)"

text \<open>\<open>pd.to_numeric\<close> on a run of decimal digits: its decimal value.\<close>

definition digits_value :: "string \<Rightarrow> int" where
  "digits_value s = foldl (\<lambda>a c. 10 * a + (int (of_char c) - 48)) 0 s"

text \<open>
  The text that \<open>Series.astype(str)\<close> gives for one value: a string stays, any other
  value becomes its \<open>str\<close>, a missing value becomes the text \<open>nan\<close>. Where
  \<open>astype(str)\<close> keeps a missing value missing (\<open>keeps_na\<close>), the two callers below
  keep it missing and do not use this text.
\<close>

fun astype_str :: "('n, 'd) pandas \<Rightarrow> ('n, 'd) cell \<Rightarrow> string" where
  "astype_str L NA = ''nan''"
| "astype_str L (Txt s) = s"
| "astype_str L v = py_str L v"

text \<open>\<open>df["FTResult"].astype(str).str.upper()\<close> (line 26) on one value.\<close>

definition result_cell :: "('n, 'd) pandas \<Rightarrow> ('n, 'd) cell \<Rightarrow> ('n, 'd) cell" where
  "result_cell L v = (if keeps_na L \<and> isna v then NA else Txt (upper (astype_str L v)))"

text \<open>\<open>pd.to_datetime(..., errors="coerce")\<close> on one value: missing stays missing.\<close>

fun to_datetime_coerce :: "('n, 'd) pandas \<Rightarrow> ('n, 'd) cell \<Rightarrow> ('n, 'd) cell" where
  "to_datetime_coerce L NA = NA"
| "to_datetime_coerce L v = (case to_datetime L v of None \<Rightarrow> NA | Some d \<Rightarrow> Stamp d)"

text \<open>The helper \<open>fnum\<close> (lines 53-54) on one value.\<close>

fun fnum :: "('n, 'd) pandas \<Rightarrow> ('n, 'd) cell \<Rightarrow> 'n option" where
  "fnum L NA = None"
| "fnum L (Num n) = Some n"
| "fnum L v = to_numeric L v"

text \<open>\<open>fnum(X[h]) - fnum(X[a])\<close> on one row: a missing operand gives a missing result.\<close>

definition diff :: "('n, 'd) pandas \<Rightarrow> ('n, 'd) cell \<Rightarrow> ('n, 'd) cell \<Rightarrow> ('n, 'd) cell" where
  "diff L x y =
     (case fnum L x of None \<Rightarrow> NA
      | Some a \<Rightarrow> (case fnum L y of None \<Rightarrow> NA | Some b \<Rightarrow> Num (subtract L a b)))"

subsection \<open>DataFrame operations\<close>

text \<open>
  \<open>df.get(c)\<close>: the column when the table has it, \<open>None\<close> otherwise. The result is
  given per row: the row's value, or a missing value.
\<close>

definition df_get :: "('n, 'd) frame \<Rightarrow> string \<Rightarrow> ('n, 'd) row \<Rightarrow> ('n, 'd) cell" where
  "df_get df c r = (if c \<in> set (columns df) then r c else NA)"

text \<open>
  \<open>pd.DataFrame(dict)\<close>, the dict given as its items in insertion order, each value a
  column computed row by row from the source table. Every key becomes a column: a value
  \<open>None\<close> is broadcast to a column of missing values, it does not remove the key. The
  rows keep the index labels of the source table.
\<close>

definition dict_row ::
  "(string \<times> (('n, 'd) row \<Rightarrow> ('n, 'd) cell)) list \<Rightarrow> ('n, 'd) row \<Rightarrow> ('n, 'd) row" where
  "dict_row d r k = (case map_of d k of Some f \<Rightarrow> f r | None \<Rightarrow> NA)"

definition DataFrame ::
  "(string \<times> (('n, 'd) row \<Rightarrow> ('n, 'd) cell)) list \<Rightarrow> (nat \<times> ('n, 'd) row) list \<Rightarrow> ('n, 'd) frame" where
  "DataFrame d rs = \<lparr>columns = map fst d, rows = map_rows (dict_row d) rs\<rparr>"

text \<open>
  \<open>pd.read_csv\<close>: the file's content is taken as parsed, the column names and the
  rows in file order; the table gets the default index \<open>0, 1, 2, ...\<close>. A file that
  pandas cannot parse is outside the model.
\<close>

record ('n, 'd) csv =
  names :: "string list"
  records :: "('n, 'd) row list"

definition read_csv :: "('n, 'd) csv \<Rightarrow> ('n, 'd) frame" where
  "read_csv f = \<lparr>columns = names f, rows = enumerate 0 (records f)\<rparr>"

text \<open>\<open>X.dropna(subset=cs)\<close>: keeps the rows with no missing value in the columns \<open>cs\<close>.\<close>

definition dropna :: "string list \<Rightarrow> ('n, 'd) frame \<Rightarrow> ('n, 'd) frame" where
  "dropna cs X = X\<lparr>rows := filter (\<lambda>(i, r). list_all (\<lambda>c. \<not> isna (r c)) cs) (rows X)\<rparr>"

text \<open>
  \<open>X[n] = column\<close>, the column computed row by row: a new name is appended to the
  columns, an existing one keeps its place.
\<close>

definition setitem ::
  "('n, 'd) frame \<Rightarrow> string \<Rightarrow> (('n, 'd) row \<Rightarrow> ('n, 'd) cell) \<Rightarrow> ('n, 'd) frame" where
  "setitem X n f =
     \<lparr>columns = (if n \<in> set (columns X) then columns X else columns X @ [n]),
      rows = map_rows (\<lambda>r. r(n := f r)) (rows X)\<rparr>"

text \<open>\<open>X[mask]\<close>, the mask computed row by row.\<close>

definition select :: "(('n, 'd) row \<Rightarrow> bool) \<Rightarrow> ('n, 'd) frame \<Rightarrow> ('n, 'd) frame" where
  "select m X = X\<lparr>rows := filter (\<lambda>(i, r). m r) (rows X)\<rparr>"

text \<open>\<open>X["year"] <= k\<close> and \<open>X["year"] == k\<close> on one row.\<close>

definition year_le :: "int \<Rightarrow> ('n, 'd) row \<Rightarrow> bool" where
  "year_le k r = (case r ''year'' of Whole y \<Rightarrow> y \<le> k | _ \<Rightarrow> False)"

definition year_eq :: "int \<Rightarrow> ('n, 'd) row \<Rightarrow> bool" where
  "year_eq k r = (case r ''year'' of Whole y \<Rightarrow> y = k | _ \<Rightarrow> False)"

text \<open>
  The table that \<open>X[out_cols].to_csv(..., index=False)\<close> writes: the header, and for
  every row its values in the order of the header. The index is not written.
\<close>

record ('n, 'd) table =
  header :: "string list"
  body :: "('n, 'd) cell list list"

definition to_csv :: "string list \<Rightarrow> ('n, 'd) frame \<Rightarrow> ('n, 'd) table" where
  "to_csv cs X = \<lparr>header = cs, body = map (\<lambda>(i, r). map r cs) (rows X)\<rparr>"

subsection \<open>The script\<close>

datatype error =
  FileNotFoundError string | RuntimeError string | ValueError | AttributeError | IntCastingNaNError

definition MATCHES_CSV :: string where
  "MATCHES_CSV = ''external/Club-Football-Match-Data-2000-2025/data/MATCHES.csv''"

definition must_have :: "string list" where
  "must_have = [''MatchDate'', ''FTResult'', ''HomeTeam'', ''AwayTeam'']"

text \<open>
  The text an f-string gives for a list of column names: Python's \<open>repr\<close> of a list of
  strings without quotes or escapes in them (the names of \<open>must_have\<close> have none).
\<close>

fun join :: "string \<Rightarrow> string list \<Rightarrow> string" where
  "join sep [] = []"
| "join sep [x] = x"
| "join sep (x # y # ys) = x @ sep @ join sep (y # ys)"

definition repr_list :: "string list \<Rightarrow> string" where
  "repr_list xs = ''['' @ join '', '' (map (\<lambda>s. [CHR 0x27] @ s @ [CHR 0x27]) xs) @ '']''"

text \<open>Lines 22-45: the working table, without the rows that lack a date or a result.\<close>

definition X_dict ::
  "('n, 'd) pandas \<Rightarrow> ('n, 'd) frame \<Rightarrow> (string \<times> (('n, 'd) row \<Rightarrow> ('n, 'd) cell)) list" where
  "X_dict L df =
     [(''date'', \<lambda>r. to_datetime_coerce L (r ''MatchDate'')),
      (''home'', \<lambda>r. r ''HomeTeam''),
      (''away'', \<lambda>r. r ''AwayTeam''),
      (''result'', \<lambda>r. result_cell L (r ''FTResult'')),
      (''elo_h'', df_get df ''HomeElo''),
      (''elo_a'', df_get df ''AwayElo''),
      (''form3_h'', df_get df ''Form3Home''),
      (''form3_a'', df_get df ''Form3Away''),
      (''form5_h'', df_get df ''Form5Home''),
      (''form5_a'', df_get df ''Form5Away''),
      (''shots_h'', df_get df ''HomeShots''),
      (''shots_a'', df_get df ''AwayShots''),
      (''sot_h'', df_get df ''HomeTarget''),
      (''sot_a'', df_get df ''AwayTarget''),
      (''corners_h'', df_get df ''HomeCorners''),
      (''corners_a'', df_get df ''AwayCorners''),
      (''yc_h'', df_get df ''HomeYellow''),
      (''yc_a'', df_get df ''AwayYellow''),
      (''rc_h'', df_get df ''HomeRed''),
      (''rc_a'', df_get df ''AwayRed''),
      (''season'', df_get df ''Season''),
      (''league'', df_get df ''Division'')]"

definition build_X :: "('n, 'd) pandas \<Rightarrow> ('n, 'd) frame \<Rightarrow> ('n, 'd) frame" where
  "build_X L df = dropna [''date'', ''result''] (DataFrame (X_dict L df) (rows df))"

text \<open>
  Lines 48-50: the label. \<open>Series.map\<close> with a dict gives a missing value for a value
  that is not a key; \<open>astype("Int64")\<close> keeps it missing.
\<close>

definition map_features :: "(string \<times> int) list" where
  "map_features = [(''A'', 1), (''D'', 2), (''H'', 3)]"

definition y_cell :: "('n, 'd) row \<Rightarrow> ('n, 'd) cell" where
  "y_cell r =
     (case r ''result'' of
        Txt s \<Rightarrow> (case map_of map_features s of Some k \<Rightarrow> Whole k | None \<Rightarrow> NA)
      | _ \<Rightarrow> NA)"

definition encode :: "('n, 'd) frame \<Rightarrow> ('n, 'd) frame" where
  "encode X = dropna [''y''] (setitem X ''y'' y_cell)"

text \<open>Lines 57-69: the difference features; the loop of lines 61-69 is \<open>add_diffs\<close>.\<close>

definition diff_col :: "('n, 'd) pandas \<Rightarrow> string \<Rightarrow> string \<Rightarrow> ('n, 'd) row \<Rightarrow> ('n, 'd) cell" where
  "diff_col L h a r = diff L (r h) (r a)"

definition optional_pairs :: "(string \<times> string \<times> string) list" where
  "optional_pairs =
     [(''shots_h'', ''shots_a'', ''d_shots''),
      (''sot_h'', ''sot_a'', ''d_sot''),
      (''corners_h'', ''corners_a'', ''d_corners''),
      (''yc_h'', ''yc_a'', ''d_yc''),
      (''rc_h'', ''rc_a'', ''d_rc'')]"

fun add_diffs ::
  "('n, 'd) pandas \<Rightarrow> (string \<times> string \<times> string) list \<Rightarrow> ('n, 'd) frame \<Rightarrow> ('n, 'd) frame" where
  "add_diffs L [] X = X"
| "add_diffs L ((h, a, n) # ps) X =
     add_diffs L ps
       (if h \<in> set (columns X) \<and> a \<in> set (columns X) then setitem X n (diff_col L h a) else X)"

definition derive :: "('n, 'd) pandas \<Rightarrow> ('n, 'd) frame \<Rightarrow> ('n, 'd) frame" where
  "derive L X0 =
     (let X1 = setitem X0 ''d_elo'' (diff_col L ''elo_h'' ''elo_a'');
          X2 = setitem X1 ''d_form3'' (diff_col L ''form3_h'' ''form3_a'');
          X3 = setitem X2 ''d_form5'' (diff_col L ''form5_h'' ''form5_a'')
      in add_diffs L optional_pairs X3)"

text \<open>
  Lines 72-76: the year of the split. \<open>X["date"].dt.year\<close> is evaluated on both
  branches (lines 74 and 76) and raises \<open>AttributeError\<close> when the date column is not a
  datetime column; \<open>.dt.year\<close> of a missing date is missing; \<open>astype(int)\<close> raises
  on a column that still holds a missing value. A season label that \<open>astype(str)\<close> keeps
  missing yields no digits, as the text \<open>nan\<close> does.
\<close>

definition date_year :: "('n, 'd) pandas \<Rightarrow> ('n, 'd) row \<Rightarrow> ('n, 'd) cell" where
  "date_year L r = (case r ''date'' of Stamp d \<Rightarrow> Whole (dt_year L d) | _ \<Rightarrow> NA)"

definition season_year :: "('n, 'd) pandas \<Rightarrow> ('n, 'd) row \<Rightarrow> ('n, 'd) cell" where
  "season_year L r =
     (if keeps_na L \<and> isna (r ''season'') then date_year L r
      else (case extract4 (astype_str L (r ''season'')) of
              Some s \<Rightarrow> Whole (digits_value s)
            | None \<Rightarrow> date_year L r))"

definition any_season :: "('n, 'd) frame \<Rightarrow> bool" where
  "any_season X = list_ex (\<lambda>(i, r). \<not> isna (r ''season'')) (rows X)"

definition add_year ::
  "('n, 'd) pandas \<Rightarrow> date_kind \<Rightarrow> ('n, 'd) frame \<Rightarrow> error + ('n, 'd) frame" where
  "add_year L kind X =
     (if kind \<noteq> Datetimes then Inl AttributeError
      else
        (let X' = (if any_season X then setitem X ''year'' (season_year L)
                   else setitem X ''year'' (date_year L))
         in if list_ex (\<lambda>(i, r). isna (r ''year'')) (rows X') then Inl IntCastingNaNError
            else Inr X'))"

text \<open>
  Lines 84-87: what the four \<open>print\<close> calls show. The class balance of the training
  rows lists each label that occurs, in ascending order, with its share, kept here as the
  pair of the label's count and the number of training rows.
\<close>

record report =
  total :: nat
  split_sizes :: "nat \<times> nat \<times> nat"
  class_balance :: "(int \<times> nat \<times> nat) list"
  features_used :: "string list"

definition labels :: "('n, 'd) frame \<Rightarrow> int list" where
  "labels X = concat (map (\<lambda>(i, r). case r ''y'' of Whole k \<Rightarrow> [k] | _ \<Rightarrow> []) (rows X))"

definition value_counts :: "int list \<Rightarrow> (int \<times> nat \<times> nat) list" where
  "value_counts ys = map (\<lambda>k. (k, count_list ys k, length ys)) (sort (remdups ys))"

text \<open>
  Lines 22-76 together: the table \<open>X\<close> with all its columns, or the error raised, by
  \<open>pd.to_datetime\<close> at line 23 or at the year.
\<close>

definition match_dates :: "('n, 'd) frame \<Rightarrow> ('n, 'd) cell list" where
  "match_dates df = map (\<lambda>(i, r). r ''MatchDate'') (rows df)"

definition prepare :: "('n, 'd) pandas \<Rightarrow> ('n, 'd) frame \<Rightarrow> error + ('n, 'd) frame" where
  "prepare L df =
     (case date_column L (match_dates df) of
        Refused \<Rightarrow> Inl ValueError
      | kind \<Rightarrow> add_year L kind (derive L (encode (build_X L df))))"

text \<open>Lines 78-80.\<close>

definition train :: "('n, 'd) frame \<Rightarrow> ('n, 'd) frame" where
  "train X = select (year_le 2022) X"

definition validation :: "('n, 'd) frame \<Rightarrow> ('n, 'd) frame" where
  "validation X = select (year_eq 2023) X"

definition test :: "('n, 'd) frame \<Rightarrow> ('n, 'd) frame" where
  "test X = select (year_eq 2024) X"

text \<open>
  The files the script touches: the input file (\<open>None\<close> when it does not exist),
  whether the directory \<open>data\<close> exists, and the written feature table (\<open>None\<close> when
  there is none yet).
\<close>

record ('n, 'd) files =
  matches_csv :: "('n, 'd) csv option"
  data_dir :: bool
  stage1_features :: "('n, 'd) table option"

definition feature_cols :: "('n, 'd) frame \<Rightarrow> string list" where
  "feature_cols X = filter (\<lambda>c. startswith c ''d_'') (columns X)"

definition out_cols :: "('n, 'd) frame \<Rightarrow> string list" where
  "out_cols X = [''date'', ''home'', ''away'', ''y'', ''year''] @ feature_cols X"

definition diagnostics :: "('n, 'd) frame \<Rightarrow> report" where
  "diagnostics X =
     \<lparr>total = length (rows X),
      split_sizes = (length (rows (train X)), length (rows (validation X)), length (rows (test X))),
      class_balance = value_counts (labels (train X)),
      features_used = feature_cols X\<rparr>"

text \<open>
  \<open>main\<close>: the error raised, or the printed diagnostics with the files as the run
  leaves them (\<open>mkdir(exist_ok=True)\<close>, then the feature table written over any
  earlier one).
\<close>

definition main :: "('n, 'd) pandas \<Rightarrow> ('n, 'd) files \<Rightarrow> error + (report \<times> ('n, 'd) files)" where
  "main L fs =
     (case matches_csv fs of
        None \<Rightarrow>
          Inl (FileNotFoundError (''Missing '' @ MATCHES_CSV @ ''. Clone the dataset into external/.''))
      | Some f \<Rightarrow>
          (let df = read_csv f;
               missing = filter (\<lambda>c. c \<notin> set (columns df)) must_have
           in if missing \<noteq> [] then
                Inl (RuntimeError (''MATCHES.csv missing required columns: '' @ repr_list missing))
              else
                (case prepare L df of
                   Inl e \<Rightarrow> Inl e
                 | Inr X \<Rightarrow>
                     Inr (diagnostics X,
                          fs\<lparr>data_dir := True,
                             stage1_features := Some (to_csv (out_cols X) X)\<rparr>))))"

subsection \<open>Notions used in the statements\<close>

text \<open>
  A source row is \<open>retained\<close> when its match date parses and its result, stringified and
  uppercased, is a key of \<open>map_features\<close>. Lemma \<open>rows_encode\<close> below proves that these
  are exactly the rows that pass the two \<open>dropna\<close> calls of lines 45 and 50.
\<close>

definition retained :: "('n, 'd) pandas \<Rightarrow> ('n, 'd) row \<Rightarrow> bool" where
  "retained L r =
     (\<not> isna (to_datetime_coerce L (r ''MatchDate'')) \<and>
      upper (astype_str L (r ''FTResult'')) \<in> set (map fst map_features))"

text \<open>Whether a retained source row carries a season label.\<close>

definition season_seen :: "('n, 'd) pandas \<Rightarrow> ('n, 'd) frame \<Rightarrow> bool" where
  "season_seen L df =
     list_ex (\<lambda>(i, r). \<not> isna (df_get df ''Season'' r)) (filter (\<lambda>(i, r). retained L r) (rows df))"

definition d_names :: "string list" where
  "d_names =
     [''d_elo'', ''d_form3'', ''d_form5'', ''d_shots'', ''d_sot'', ''d_corners'', ''d_yc'', ''d_rc'']"

definition all_columns :: "string list" where
  "all_columns =
     [''date'', ''home'', ''away'', ''result'', ''elo_h'', ''elo_a'', ''form3_h'', ''form3_a'',
      ''form5_h'', ''form5_a'', ''shots_h'', ''shots_a'', ''sot_h'', ''sot_a'', ''corners_h'',
      ''corners_a'', ''yc_h'', ''yc_a'', ''rc_h'', ''rc_a'', ''season'', ''league'', ''y'',
      ''d_elo'', ''d_form3'', ''d_form5'', ''d_shots'', ''d_sot'', ''d_corners'', ''d_yc'',
      ''d_rc'', ''year'']"

text \<open>The index labels of a table, and the values of one column, in row order.\<close>

definition index :: "('n, 'd) frame \<Rightarrow> nat list" where
  "index X = map fst (rows X)"

definition column :: "string \<Rightarrow> ('n, 'd) frame \<Rightarrow> ('n, 'd) cell list" where
  "column c X = map (\<lambda>(i, x). x c) (rows X)"

subsection \<open>A small input, for evaluating the statements\<close>

text \<open>
  An instance of the library functions: dates are \<open>YYYY-MM-DD\<close>, numbers are runs of
  digits, timestamps are triples (year, month, day).
\<close>

definition sample_pandas :: "(int, int \<times> int \<times> int) pandas" where
  "sample_pandas =
     \<lparr>date_column = (\<lambda>vs. Datetimes),
      to_datetime = (\<lambda>v. case v of
          Txt s \<Rightarrow>
            (if length s = 10 \<and> list_all isdigit (take 4 s)
             then Some (digits_value (take 4 s), digits_value (take 2 (drop 5 s)),
                        digits_value (take 2 (drop 8 s)))
             else None)
        | _ \<Rightarrow> None),
      keeps_na = False,
      dt_year = fst,
      py_str = (\<lambda>v. ''?''),
      to_numeric = (\<lambda>v. case v of
          Txt s \<Rightarrow> (if s \<noteq> [] \<and> list_all isdigit s then Some (digits_value s) else None)
        | _ \<Rightarrow> None),
      subtract = (\<lambda>a b. a - b)\<rparr>"

definition record_of :: "(string \<times> ('n, 'd) cell) list \<Rightarrow> ('n, 'd) row" where
  "record_of kvs k = (case map_of kvs k of Some v \<Rightarrow> v | None \<Rightarrow> NA)"

type_synonym sample_cell = "(int, int \<times> int \<times> int) cell"

definition match_row :: "sample_cell \<Rightarrow> sample_cell \<Rightarrow> sample_cell \<Rightarrow> (int, int \<times> int \<times> int) row" where
  "match_row d res season =
     record_of [(''MatchDate'', d), (''FTResult'', res), (''HomeTeam'', Txt ''Ajax''),
                (''AwayTeam'', Txt ''PSV''), (''HomeShots'', Num 7), (''Season'', season)]"

text \<open>
  Seven matches in a file that has the column \<open>HomeShots\<close> but not \<open>AwayShots\<close>:
  a home win in lower case, an unparseable date, a result padded with a blank, a missing
  result, an away win without a season label, a draw after 2024 and a postponed match.
\<close>

definition sample_csv :: "(int, int \<times> int \<times> int) csv" where
  "sample_csv =
     \<lparr>names = [''MatchDate'', ''FTResult'', ''HomeTeam'', ''AwayTeam'', ''HomeShots'', ''Season''],
      records =
        [match_row (Txt ''2021-08-14'') (Txt ''h'') (Txt ''2020/2021''),
         match_row (Txt ''14 Aug'') (Txt ''D'') (Txt ''2021/2022''),
         match_row (Txt ''2023-08-14'') (Txt '' H'') (Txt ''2023/2024''),
         match_row (Txt ''2023-08-15'') NA (Txt ''2023/2024''),
         match_row (Txt ''2024-08-15'') (Txt ''A'') NA,
         match_row (Txt ''2025-01-05'') (Txt ''D'') (Txt ''winter''),
         match_row (Txt ''2022-03-01'') (Txt ''P'') (Txt ''2021/2022'')]\<rparr>"

definition sample_files :: "(int, int \<times> int \<times> int) files" where
  "sample_files = \<lparr>matches_csv = Some sample_csv, data_dir = False, stage1_features = None\<rparr>"

text \<open>A file in which the only season labels sit on rows that are dropped.\<close>

definition late_csv :: "(int, int \<times> int \<times> int) csv" where
  "late_csv =
     \<lparr>names = [''MatchDate'', ''FTResult'', ''HomeTeam'', ''AwayTeam'', ''HomeShots'', ''Season''],
      records =
        [match_row (Txt ''14 Aug'') (Txt ''D'') (Txt ''2021/2022''),
         match_row (Txt ''2024-08-15'') (Txt ''A'') NA,
         match_row (Txt ''2022-03-01'') (Txt ''P'') (Txt ''2021/2022'')]\<rparr>"

text \<open>A file without two of the required columns.\<close>

definition short_csv :: "(int, int \<times> int \<times> int) csv" where
  "short_csv = \<lparr>names = [''MatchDate'', ''HomeTeam''], records = []\<rparr>"

section \<open>Properties\<close>

subsection \<open>Tables, row by row\<close>

lemma map_rows_map_rows: "map_rows f (map_rows g rs) = map_rows (f \<circ> g) rs"
  by (induction rs) (auto simp: map_rows_def)

lemma filter_map_rows:
  "filter (\<lambda>(i, r). P r) (map_rows f rs) = map_rows f (filter (\<lambda>(i, r). P (f r)) rs)"
  by (induction rs) (auto simp: map_rows_def)

lemma map_fst_map_rows: "map fst (map_rows f rs) = map fst rs"
  by (induction rs) (auto simp: map_rows_def)

lemma in_map_rows: "(i, x) \<in> set (map_rows f rs) \<longleftrightarrow> (\<exists>r. (i, r) \<in> set rs \<and> x = f r)"
  by (auto simp: map_rows_def)

lemma rows_setitem: "rows (setitem X n f) = map_rows (\<lambda>r. r(n := f r)) (rows X)"
  by (simp add: setitem_def)

lemma rows_dropna:
  "rows (dropna cs X) = filter (\<lambda>(i, r). list_all (\<lambda>c. \<not> isna (r c)) cs) (rows X)"
  by (simp add: dropna_def)

lemma X_dict_fields:
  "dict_row (X_dict L df) r ''date'' = to_datetime_coerce L (r ''MatchDate'')"
  "dict_row (X_dict L df) r ''home'' = r ''HomeTeam''"
  "dict_row (X_dict L df) r ''away'' = r ''AwayTeam''"
  "dict_row (X_dict L df) r ''result'' = result_cell L (r ''FTResult'')"
  "dict_row (X_dict L df) r ''season'' = df_get df ''Season'' r"
  by (simp_all add: dict_row_def X_dict_def)

lemma result_cell_notna: "\<not> isna (result_cell L v) \<longleftrightarrow> \<not> (keeps_na L \<and> isna v)"
  by (simp add: result_cell_def)

lemma upper_nan: "upper ''nan'' = ''NAN''"
  by (simp add: upper_def upper_char_def)

lemma mapped_not_missing:
  "upper (astype_str L v) \<in> set (map fst map_features) \<Longrightarrow> \<not> isna v"
  by (cases v) (auto simp: upper_nan map_features_def)

lemma result_cell_mapped:
  "upper (astype_str L v) \<in> set (map fst map_features) \<Longrightarrow>
   result_cell L v = Txt (upper (astype_str L v))"
  using mapped_not_missing [of L v] by (simp add: result_cell_def)

lemma rows_build_X:
  "rows (build_X L df) =
     map_rows (dict_row (X_dict L df))
       (filter (\<lambda>(i, r). \<not> isna (to_datetime_coerce L (r ''MatchDate'')) \<and>
                         \<not> (keeps_na L \<and> isna (r ''FTResult''))) (rows df))"
  by (simp add: build_X_def rows_dropna DataFrame_def filter_map_rows X_dict_fields
      result_cell_notna)

lemma columns_build_X:
  "columns (build_X L df) =
     [''date'', ''home'', ''away'', ''result'', ''elo_h'', ''elo_a'', ''form3_h'', ''form3_a'',
      ''form5_h'', ''form5_a'', ''shots_h'', ''shots_a'', ''sot_h'', ''sot_a'', ''corners_h'',
      ''corners_a'', ''yc_h'', ''yc_a'', ''rc_h'', ''rc_a'', ''season'', ''league'']"
  by (simp add: build_X_def dropna_def DataFrame_def X_dict_def)

lemma y_cell_notna:
  "\<not> isna (y_cell x) \<longleftrightarrow> (\<exists>s. x ''result'' = Txt s \<and> s \<in> set (map fst map_features))"
  by (auto simp: y_cell_def map_features_def split: cell.splits)

lemma y_cell_dict:
  "\<not> isna (y_cell (dict_row (X_dict L df) r)) \<longleftrightarrow>
     upper (astype_str L (r ''FTResult'')) \<in> set (map fst map_features)"
proof (cases "keeps_na L \<and> isna (r ''FTResult'')")
  case True
  then have "dict_row (X_dict L df) r ''result'' = NA"
    by (simp add: X_dict_fields result_cell_def)
  then have "isna (y_cell (dict_row (X_dict L df) r))" by (simp add: y_cell_def)
  with True mapped_not_missing [of L "r ''FTResult''"] show ?thesis by auto
next
  case False
  then have "dict_row (X_dict L df) r ''result'' = Txt (upper (astype_str L (r ''FTResult'')))"
    by (auto simp: X_dict_fields result_cell_def)
  then show ?thesis by (simp add: y_cell_notna)
qed

lemma filter_filter_rows:
  "filter (\<lambda>(i, r). P r) (filter (\<lambda>(i, r). Q r) rs) = filter (\<lambda>(i, r). Q r \<and> P r) rs"
  by (induction rs) auto

lemma retained_passes:
  "(\<not> isna (to_datetime_coerce L (r ''MatchDate'')) \<and>
    \<not> (keeps_na L \<and> isna (r ''FTResult''))) \<and>
   \<not> isna (y_cell (dict_row (X_dict L df) r)) \<longleftrightarrow> retained L r"
  using mapped_not_missing [of L "r ''FTResult''"] by (auto simp: y_cell_dict retained_def)

lemma rows_encode:
  "rows (encode (build_X L df)) =
     map_rows (\<lambda>r. (dict_row (X_dict L df) r)(''y'' := y_cell (dict_row (X_dict L df) r)))
       (filter (\<lambda>(i, r). retained L r) (rows df))"
proof -
  let ?D = "dict_row (X_dict L df)"
  let ?Y = "\<lambda>x::('a, 'b) row. x(''y'' := y_cell x)"
  have "rows (encode (build_X L df)) =
        filter (\<lambda>(i, x). \<not> isna (x ''y'')) (map_rows ?Y (rows (build_X L df)))"
    by (simp add: encode_def rows_dropna rows_setitem)
  also have "\<dots> = map_rows ?Y (filter (\<lambda>(i, x). \<not> isna (y_cell x)) (rows (build_X L df)))"
    by (simp add: filter_map_rows)
  also have "\<dots> = map_rows ?Y (map_rows ?D
       (filter (\<lambda>(i, r). \<not> isna (y_cell (?D r)))
         (filter (\<lambda>(i, r). \<not> isna (to_datetime_coerce L (r ''MatchDate'')) \<and>
                           \<not> (keeps_na L \<and> isna (r ''FTResult''))) (rows df))))"
    by (simp add: rows_build_X filter_map_rows)
  also have "\<dots> = map_rows (?Y \<circ> ?D) (filter (\<lambda>(i, r). retained L r) (rows df))"
    unfolding filter_filter_rows retained_passes by (simp add: map_rows_map_rows)
  finally show ?thesis by (simp add: comp_def)
qed

lemma columns_encode:
  "columns (encode (build_X L df)) = columns (build_X L df) @ [''y'']"
  by (simp add: encode_def dropna_def setitem_def columns_build_X)


lemma add_diffs_rows:
  "\<exists>G. rows (add_diffs L ps X) = map_rows G (rows X) \<and>
       (\<forall>r c. c \<notin> (\<lambda>(h, a, n). n) ` set ps \<longrightarrow> G r c = r c)"
proof (induction ps arbitrary: X)
  case Nil
  have "rows (add_diffs L [] X) = map_rows (\<lambda>r. r) (rows X)"
    by (simp add: map_rows_def)
  then show ?case by blast
next
  case (Cons p ps)
  obtain h a n where p: "p = (h, a, n)" by (cases p)
  let ?X' = "if h \<in> set (columns X) \<and> a \<in> set (columns X) then setitem X n (diff_col L h a) else X"
  from Cons.IH [of ?X'] obtain G where
    G: "rows (add_diffs L ps ?X') = map_rows G (rows ?X')"
       "\<forall>r c. c \<notin> (\<lambda>(h, a, n). n) ` set ps \<longrightarrow> G r c = r c" by blast
  obtain H where H: "rows ?X' = map_rows H (rows X)" "\<forall>r c. c \<noteq> n \<longrightarrow> H r c = r c"
  proof (cases "h \<in> set (columns X) \<and> a \<in> set (columns X)")
    case True
    then have "rows ?X' = map_rows (\<lambda>r. r(n := diff_col L h a r)) (rows X)"
      by (simp add: rows_setitem)
    then show ?thesis using that [of "\<lambda>r. r(n := diff_col L h a r)"] by simp
  next
    case False
    then have "rows ?X' = map_rows (\<lambda>r. r) (rows X)" by (auto simp: map_rows_def)
    then show ?thesis using that [of "\<lambda>r. r"] by simp
  qed
  have "rows (add_diffs L (p # ps) X) = map_rows (G \<circ> H) (rows X)"
    using G(1) H(1) by (simp add: p map_rows_map_rows)
  moreover have "\<forall>r c. c \<notin> (\<lambda>(h, a, n). n) ` set (p # ps) \<longrightarrow> (G \<circ> H) r c = r c"
    using G(2) H(2) by (simp add: p)
  ultimately show ?case by blast
qed

lemma derive_rows:
  "\<exists>G. rows (derive L X) = map_rows G (rows X) \<and> (\<forall>r c. c \<notin> set d_names \<longrightarrow> G r c = r c)"
proof -
  let ?f1 = "\<lambda>r::('a, 'b) row. r(''d_elo'' := diff_col L ''elo_h'' ''elo_a'' r)"
  let ?f2 = "\<lambda>r::('a, 'b) row. r(''d_form3'' := diff_col L ''form3_h'' ''form3_a'' r)"
  let ?f3 = "\<lambda>r::('a, 'b) row. r(''d_form5'' := diff_col L ''form5_h'' ''form5_a'' r)"
  let ?X3 = "setitem (setitem (setitem X ''d_elo'' (diff_col L ''elo_h'' ''elo_a''))
      ''d_form3'' (diff_col L ''form3_h'' ''form3_a'')) ''d_form5'' (diff_col L ''form5_h'' ''form5_a'')"
  obtain G where G: "rows (add_diffs L optional_pairs ?X3) = map_rows G (rows ?X3)"
    "\<forall>r c. c \<notin> (\<lambda>(h, a, n). n) ` set optional_pairs \<longrightarrow> G r c = r c"
    using add_diffs_rows by blast
  have X3: "rows ?X3 = map_rows (?f3 \<circ> ?f2 \<circ> ?f1) (rows X)"
    by (simp add: rows_setitem map_rows_map_rows comp_assoc)
  have "rows (derive L X) = map_rows (G \<circ> (?f3 \<circ> ?f2 \<circ> ?f1)) (rows X)"
    using G(1) X3 by (simp add: derive_def Let_def map_rows_map_rows)
  moreover have "\<forall>r c. c \<notin> set d_names \<longrightarrow> (G \<circ> (?f3 \<circ> ?f2 \<circ> ?f1)) r c = r c"
    using G(2) by (simp add: d_names_def optional_pairs_def)
  ultimately show ?thesis by blast
qed

lemma columns_setitem_new: "n \<notin> set (columns X) \<Longrightarrow> columns (setitem X n f) = columns X @ [n]"
  by (simp add: setitem_def)

lemma columns_add_diffs:
  "list_all (\<lambda>(h, a, n). h \<in> set (columns X) \<and> a \<in> set (columns X)) ps \<Longrightarrow>
   distinct (map (\<lambda>(h, a, n). n) ps) \<Longrightarrow>
   set (map (\<lambda>(h, a, n). n) ps) \<inter> set (columns X) = {} \<Longrightarrow>
   columns (add_diffs L ps X) = columns X @ map (\<lambda>(h, a, n). n) ps"
proof (induction ps arbitrary: X)
  case Nil
  then show ?case by simp
next
  case (Cons p ps)
  obtain h a n where p: "p = (h, a, n)" by (cases p)
  let ?X' = "setitem X n (diff_col L h a)"
  from Cons.prems have n: "n \<notin> set (columns X)" and ha: "h \<in> set (columns X)" "a \<in> set (columns X)"
    by (auto simp: p)
  have cols: "columns ?X' = columns X @ [n]" using n by (rule columns_setitem_new)
  have "columns (add_diffs L ps ?X') = columns ?X' @ map (\<lambda>(h, a, n). n) ps"
  proof (rule Cons.IH)
    show "list_all (\<lambda>(h, a, n). h \<in> set (columns ?X') \<and> a \<in> set (columns ?X')) ps"
      using Cons.prems(1) by (auto simp: cols p list_all_iff)
    show "distinct (map (\<lambda>(h, a, n). n) ps)" using Cons.prems(2) by simp
    show "set (map (\<lambda>(h, a, n). n) ps) \<inter> set (columns ?X') = {}"
      using Cons.prems(2,3) by (auto simp: cols p)
  qed
  then show ?case using ha by (simp add: p cols)
qed

lemma columns_derive:
  "columns (derive L (encode (build_X L df))) = columns (build_X L df) @ [''y''] @ d_names"
proof -
  let ?X0 = "encode (build_X L df)"
  let ?X1 = "setitem ?X0 ''d_elo'' (diff_col L ''elo_h'' ''elo_a'')"
  let ?X2 = "setitem ?X1 ''d_form3'' (diff_col L ''form3_h'' ''form3_a'')"
  let ?X3 = "setitem ?X2 ''d_form5'' (diff_col L ''form5_h'' ''form5_a'')"
  have c0: "columns ?X0 = columns (build_X L df) @ [''y'']" by (rule columns_encode)
  have c1: "columns ?X1 = columns (build_X L df) @ [''y'', ''d_elo'']"
    by (subst columns_setitem_new) (simp_all add: c0 columns_build_X)
  have c2: "columns ?X2 = columns (build_X L df) @ [''y'', ''d_elo'', ''d_form3'']"
    by (subst columns_setitem_new) (simp_all add: c1 columns_build_X)
  have c3: "columns ?X3 = columns (build_X L df) @ [''y'', ''d_elo'', ''d_form3'', ''d_form5'']"
    by (subst columns_setitem_new) (simp_all add: c2 columns_build_X)
  have d: "derive L ?X0 = add_diffs L optional_pairs ?X3"
    by (simp add: derive_def Let_def)
  have m: "map (\<lambda>(h, a, n). n) optional_pairs = [''d_shots'', ''d_sot'', ''d_corners'', ''d_yc'', ''d_rc'']"
    by (simp add: optional_pairs_def)
  have "columns (add_diffs L optional_pairs ?X3) =
        columns ?X3 @ map (\<lambda>(h, a, n). n) optional_pairs"
    by (rule columns_add_diffs) (simp_all add: c3 columns_build_X optional_pairs_def)
  then show ?thesis
    by (simp add: d m c3 d_names_def)
qed

lemma to_datetime_coerce_cases:
  "to_datetime_coerce L v = NA \<or> (\<exists>d. to_datetime_coerce L v = Stamp d)"
  by (cases v) (auto split: option.splits)

lemma derived_rows:
  "\<exists>F. rows (derive L (encode (build_X L df))) =
         map_rows F (filter (\<lambda>(i, r). retained L r) (rows df)) \<and>
       (\<forall>r. F r ''date'' = to_datetime_coerce L (r ''MatchDate'') \<and>
            F r ''home'' = r ''HomeTeam'' \<and>
            F r ''away'' = r ''AwayTeam'' \<and>
            F r ''result'' = result_cell L (r ''FTResult'') \<and>
            F r ''season'' = df_get df ''Season'' r \<and>
            F r ''y'' = y_cell (F r))"
proof -
  let ?D = "dict_row (X_dict L df)"
  let ?E = "\<lambda>r. (?D r)(''y'' := y_cell (?D r))"
  obtain G where G: "rows (derive L (encode (build_X L df))) = map_rows G (rows (encode (build_X L df)))"
    "\<forall>r c. c \<notin> set d_names \<longrightarrow> G r c = r c"
    using derive_rows by blast
  have keep: "G x ''date'' = x ''date''" "G x ''home'' = x ''home''" "G x ''away'' = x ''away''"
    "G x ''result'' = x ''result''" "G x ''season'' = x ''season''" "G x ''y'' = x ''y''" for x
    using G(2) by (simp_all add: d_names_def)
  let ?F = "G \<circ> ?E"
  have rows: "rows (derive L (encode (build_X L df))) =
        map_rows ?F (filter (\<lambda>(i, r). retained L r) (rows df))"
    by (simp add: G(1) rows_encode map_rows_map_rows comp_def)
  have y: "?F r ''y'' = y_cell (?F r)" for r
    by (simp add: keep y_cell_def)
  have fields: "?F r ''date'' = to_datetime_coerce L (r ''MatchDate'') \<and>
        ?F r ''home'' = r ''HomeTeam'' \<and>
        ?F r ''away'' = r ''AwayTeam'' \<and>
        ?F r ''result'' = result_cell L (r ''FTResult'') \<and>
        ?F r ''season'' = df_get df ''Season'' r" for r
    by (simp add: keep X_dict_fields)
  show ?thesis
  proof (intro exI conjI allI)
    show "rows (derive L (encode (build_X L df))) =
        map_rows ?F (filter (\<lambda>(i, r). retained L r) (rows df))" by (rule rows)
  qed (use y fields in blast)+
qed

lemma list_ex_map_rows:
  "list_ex (\<lambda>(i, x). P x) (map_rows f rs) = list_ex (\<lambda>(i, r). P (f r)) rs"
  by (induction rs) (auto simp: map_rows_def)

lemma date_year_upd: "date_year L (x(''year'' := v)) = date_year L x"
  by (simp add: date_year_def)

lemma season_year_upd: "season_year L (x(''year'' := v)) = season_year L x"
  by (simp add: season_year_def date_year_upd split: option.splits)

lemma retained_Stamp: "retained L r \<Longrightarrow> \<exists>d. to_datetime_coerce L (r ''MatchDate'') = Stamp d"
  using to_datetime_coerce_cases [of L "r ''MatchDate''"] by (auto simp: retained_def)

lemma prepare_Inr: "prepare L df = Inr X \<Longrightarrow> date_column L (match_dates df) = Datetimes"
  by (auto simp: prepare_def add_year_def split: date_kind.splits if_splits)

lemma prepare_rows:
  assumes "date_column L (match_dates df) = Datetimes"
  shows "\<exists>F. prepare L df =
         Inr \<lparr>columns = all_columns,
              rows = map_rows F (filter (\<lambda>(i, r). retained L r) (rows df))\<rparr> \<and>
       (\<forall>r. F r ''date'' = to_datetime_coerce L (r ''MatchDate'') \<and>
            F r ''home'' = r ''HomeTeam'' \<and>
            F r ''away'' = r ''AwayTeam'' \<and>
            F r ''result'' = result_cell L (r ''FTResult'') \<and>
            F r ''season'' = df_get df ''Season'' r \<and>
            F r ''y'' = y_cell (F r) \<and>
            F r ''year'' = (if season_seen L df then season_year L (F r) else date_year L (F r)))"
proof -
  let ?X0 = "derive L (encode (build_X L df))"
  let ?rs = "filter (\<lambda>(i, r). retained L r) (rows df)"
  obtain F0 where rows0: "rows ?X0 = map_rows F0 ?rs"
    and f0: "\<And>r. F0 r ''date'' = to_datetime_coerce L (r ''MatchDate'')"
      "\<And>r. F0 r ''home'' = r ''HomeTeam''"
      "\<And>r. F0 r ''away'' = r ''AwayTeam''"
      "\<And>r. F0 r ''result'' = result_cell L (r ''FTResult'')"
      "\<And>r. F0 r ''season'' = df_get df ''Season'' r"
      "\<And>r. F0 r ''y'' = y_cell (F0 r)"
    using derived_rows [of L df] by blast
  have cols0: "columns ?X0 \<noteq> [] \<and> ''year'' \<notin> set (columns ?X0) \<and> columns ?X0 @ [''year''] = all_columns"
    by (simp add: columns_derive columns_build_X d_names_def all_columns_def)
  have any: "any_season ?X0 = season_seen L df"
    by (simp add: any_season_def rows0 list_ex_map_rows f0 season_seen_def)
  let ?Y = "if season_seen L df then season_year L else date_year L"
  let ?F = "\<lambda>r. (F0 r)(''year'' := ?Y (F0 r))"
  let ?X' = "setitem ?X0 ''year'' ?Y"
  have X': "?X' = \<lparr>columns = all_columns, rows = map_rows ?F ?rs\<rparr>"
    using cols0 by (simp add: setitem_def rows0 map_rows_map_rows comp_def)
  have notna: "\<not> isna (?F r ''year'')" if "retained L r" for r
  proof -
    from retained_Stamp [OF that] obtain d where d: "F0 r ''date'' = Stamp d" by (auto simp: f0)
    then show ?thesis by (auto simp: season_year_def date_year_def split: option.splits)
  qed
  have ok: "\<not> list_ex (\<lambda>(i, x). isna (x ''year'')) (map_rows ?F ?rs)"
    using notna by (auto simp: list_ex_iff in_map_rows)
  have pick: "(if any_season ?X0 then setitem ?X0 ''year'' (season_year L)
               else setitem ?X0 ''year'' (date_year L)) = ?X'"
    by (simp add: any)
  have rows': "rows ?X' = map_rows ?F ?rs"
    by (simp only: X' frame.simps)
  have step: "add_year L Datetimes ?X0 = Inr ?X'"
    unfolding add_year_def Let_def pick using ok by (simp only: rows' if_False simp_thms)
  have prep: "prepare L df = Inr \<lparr>columns = all_columns, rows = map_rows ?F ?rs\<rparr>"
    by (simp only: prepare_def assms date_kind.case step X')
  have y: "?F r ''y'' = y_cell (?F r)" for r
    using f0(6) [of r] by (simp add: y_cell_def)
  have yr: "?F r ''year'' = (if season_seen L df then season_year L (?F r) else date_year L (?F r))" for r
    by (simp add: season_year_upd date_year_upd)
  have fields: "?F r ''date'' = to_datetime_coerce L (r ''MatchDate'') \<and>
        ?F r ''home'' = r ''HomeTeam'' \<and>
        ?F r ''away'' = r ''AwayTeam'' \<and>
        ?F r ''result'' = result_cell L (r ''FTResult'') \<and>
        ?F r ''season'' = df_get df ''Season'' r" for r
    by (simp add: f0)
  show ?thesis
  proof (intro exI conjI allI)
    show "prepare L df = Inr \<lparr>columns = all_columns, rows = map_rows ?F ?rs\<rparr>" by (rule prep)
  qed (use y yr fields in blast)+
qed

subsection \<open>The table of line 76\<close>

lemma prepare_total: "date_column L (match_dates df) = Datetimes \<Longrightarrow> \<exists>X. prepare L df = Inr X"
  using prepare_rows [of L df] by blast

lemma prepare_columns: "prepare L df = Inr X \<Longrightarrow> columns X = all_columns"
  using prepare_rows [OF prepare_Inr, of L df X] by auto

lemma prepare_index:
  "prepare L df = Inr X \<Longrightarrow> index X = map fst (filter (\<lambda>(i, r). retained L r) (rows df))"
  using prepare_rows [OF prepare_Inr, of L df X] by (auto simp: index_def map_fst_map_rows)

lemma prepare_row:
  assumes "prepare L df = Inr X" and "(i, x) \<in> set (rows X)"
  shows "\<exists>r. (i, r) \<in> set (rows df) \<and> retained L r \<and>
             x ''date'' = to_datetime_coerce L (r ''MatchDate'') \<and>
             x ''home'' = r ''HomeTeam'' \<and>
             x ''away'' = r ''AwayTeam'' \<and>
             x ''result'' = Txt (upper (astype_str L (r ''FTResult''))) \<and>
             x ''season'' = df_get df ''Season'' r \<and>
             x ''y'' = y_cell x \<and>
             x ''year'' = (if season_seen L df then season_year L x else date_year L x)"
proof -
  from prepare_rows [OF prepare_Inr [OF assms(1)]] obtain F where
    F: "prepare L df = Inr \<lparr>columns = all_columns,
          rows = map_rows F (filter (\<lambda>(i, r). retained L r) (rows df))\<rparr>"
    and fields: "\<And>r. F r ''date'' = to_datetime_coerce L (r ''MatchDate'') \<and>
            F r ''home'' = r ''HomeTeam'' \<and>
            F r ''away'' = r ''AwayTeam'' \<and>
            F r ''result'' = result_cell L (r ''FTResult'') \<and>
            F r ''season'' = df_get df ''Season'' r \<and>
            F r ''y'' = y_cell (F r) \<and>
            F r ''year'' = (if season_seen L df then season_year L (F r) else date_year L (F r))"
    by blast
  from F assms(1) have "rows X = map_rows F (filter (\<lambda>(i, r). retained L r) (rows df))" by auto
  with assms(2) obtain r where r: "(i, r) \<in> set (rows df)" "retained L r" "x = F r"
    by (auto simp: in_map_rows)
  from r(2) have "result_cell L (r ''FTResult'') = Txt (upper (astype_str L (r ''FTResult'')))"
    by (simp add: retained_def result_cell_mapped)
  with r fields [of r] show ?thesis by auto
qed


subsection \<open>Tables read from a file\<close>

lemma in_rows_read_csv:
  "(i, r) \<in> set (rows (read_csv f)) \<longleftrightarrow> i < length (records f) \<and> r = records f ! i"
  by (auto simp: read_csv_def in_set_enumerate_eq)

lemma map_fst_filter_enumerate:
  "map fst (filter (\<lambda>(i, r). P r) (enumerate n xs)) = filter (\<lambda>i. P (xs ! (i - n))) [n..<n + length xs]"
proof (induction xs arbitrary: n)
  case Nil
  then show ?case by simp
next
  case (Cons x xs)
  have shift: "P ((x # xs) ! (i - n)) = P (xs ! (i - Suc n))" if "Suc n \<le> i" for i
  proof -
    from that have "i - n = Suc (i - Suc n)" by arith
    then show ?thesis by simp
  qed
  have "filter (\<lambda>i. P ((x # xs) ! (i - n))) [Suc n..<Suc n + length xs] =
        filter (\<lambda>i. P (xs ! (i - Suc n))) [Suc n..<Suc n + length xs]"
  proof (rule filter_cong [OF refl])
    fix i assume "i \<in> set [Suc n..<Suc n + length xs]"
    then have "Suc n \<le> i" by (simp del: upt_Suc)
    then show "P ((x # xs) ! (i - n)) = P (xs ! (i - Suc n))" by (rule shift)
  qed
  with Cons.IH [of "Suc n"] show ?case
    by (simp add: upt_conv_Cons del: upt_Suc)
qed

lemma index_read_csv:
  "prepare L (read_csv f) = Inr X \<Longrightarrow>
   index X = filter (\<lambda>i. retained L (records f ! i)) [0..<length (records f)]"
  using map_fst_filter_enumerate [of "retained L" 0 "records f"]
  by (simp add: prepare_index read_csv_def)

lemma index_distinct: "prepare L (read_csv f) = Inr X \<Longrightarrow> distinct (index X)"
  by (simp add: index_read_csv)

subsection \<open>A successful run\<close>

lemma main_success:
  "main L fs = Inr (rep, fs') \<longleftrightarrow>
     (\<exists>f X. matches_csv fs = Some f \<and> filter (\<lambda>c. c \<notin> set (names f)) must_have = [] \<and>
            prepare L (read_csv f) = Inr X \<and> rep = diagnostics X \<and>
            fs' = fs\<lparr>data_dir := True, stage1_features := Some (to_csv (out_cols X) X)\<rparr>)"
  by (auto simp: main_def Let_def read_csv_def split: option.splits sum.splits)

lemma feature_cols_all: "columns X = all_columns \<Longrightarrow> feature_cols X = d_names"
  by (simp add: feature_cols_def all_columns_def d_names_def startswith_def)

subsection \<open>The sample inputs, evaluated\<close>

lemmas sample_defs =
  sample_csv_def late_csv_def match_row_def record_of_def sample_pandas_def retained_def
  upper_def upper_char_def isdigit_def digits_value_def map_features_def

lemma sample_retained:
  "filter (\<lambda>(i, r). retained sample_pandas r) (rows (read_csv sample_csv)) =
     [(0, records sample_csv ! 0), (4, records sample_csv ! 4), (5, records sample_csv ! 5)]"
  by (simp add: sample_defs read_csv_def enumerate_eq_zip upt_rec)

lemma late_retained:
  "filter (\<lambda>(i, r). retained sample_pandas r) (rows (read_csv late_csv)) =
     [(1, match_row (Txt ''2024-08-15'') (Txt ''A'') NA)]"
  by (simp add: sample_defs read_csv_def enumerate_eq_zip upt_rec)

lemma sample_season_seen: "season_seen sample_pandas (read_csv sample_csv)"
  unfolding season_seen_def sample_retained
  by (simp add: df_get_def read_csv_def sample_defs)

lemma late_season_seen: "\<not> season_seen sample_pandas (read_csv late_csv)"
  unfolding season_seen_def late_retained
  by (simp add: df_get_def read_csv_def sample_defs)

lemma sample_prepare: "\<exists>X. prepare sample_pandas (read_csv f) = Inr X"
  by (rule prepare_total) (simp add: sample_pandas_def)

lemma sample_dt_year: "dt_year sample_pandas = fst"
  by (simp add: sample_pandas_def)

lemma sample_rows:
  assumes "prepare sample_pandas (read_csv sample_csv) = Inr X"
  shows "\<exists>x0 x4 x5. rows X = [(0, x0), (4, x4), (5, x5)] \<and>
     x0 ''date'' = Stamp (2021, 8, 14) \<and> x0 ''season'' = Txt ''2020/2021'' \<and>
     x0 ''y'' = Whole 3 \<and> x0 ''year'' = Whole 2020 \<and>
     x4 ''date'' = Stamp (2024, 8, 15) \<and> x4 ''season'' = NA \<and>
     x4 ''y'' = Whole 1 \<and> x4 ''year'' = Whole 2024 \<and>
     x5 ''date'' = Stamp (2025, 1, 5) \<and> x5 ''season'' = Txt ''winter'' \<and>
     x5 ''y'' = Whole 2 \<and> x5 ''year'' = Whole 2025"
proof -
  let ?L = sample_pandas and ?df = "read_csv sample_csv"
  from prepare_rows [OF prepare_Inr [OF assms]] obtain F where
    F: "prepare ?L ?df = Inr \<lparr>columns = all_columns,
          rows = map_rows F (filter (\<lambda>(i, r). retained ?L r) (rows ?df))\<rparr>"
    and date: "\<And>r. F r ''date'' = to_datetime_coerce ?L (r ''MatchDate'')"
    and result: "\<And>r. F r ''result'' = result_cell ?L (r ''FTResult'')"
    and season: "\<And>r. F r ''season'' = df_get ?df ''Season'' r"
    and y: "\<And>r. F r ''y'' = y_cell (F r)"
    and year: "\<And>r. F r ''year'' = (if season_seen ?L ?df then season_year ?L (F r) else date_year ?L (F r))"
    by blast
  let ?r0 = "records sample_csv ! 0" and ?r4 = "records sample_csv ! 4" and ?r5 = "records sample_csv ! 5"
  from F assms have rows: "rows X = [(0, F ?r0), (4, F ?r4), (5, F ?r5)]"
    by (simp add: sample_retained map_rows_def)
  have d: "F ?r0 ''date'' = Stamp (2021, 8, 14)" "F ?r4 ''date'' = Stamp (2024, 8, 15)"
    "F ?r5 ''date'' = Stamp (2025, 1, 5)"
    by (simp_all add: date sample_defs)
  have s: "F ?r0 ''season'' = Txt ''2020/2021''" "F ?r4 ''season'' = NA" "F ?r5 ''season'' = Txt ''winter''"
    by (simp_all add: season df_get_def read_csv_def sample_defs)
  have l: "F ?r0 ''y'' = Whole 3" "F ?r4 ''y'' = Whole 1" "F ?r5 ''y'' = Whole 2"
    by (simp_all add: y y_cell_def result result_cell_def sample_defs)
  have yr: "F ?r0 ''year'' = Whole 2020" "F ?r4 ''year'' = Whole 2024" "F ?r5 ''year'' = Whole 2025"
    by (simp_all add: year sample_season_seen season_year_def date_year_def d s sample_dt_year
        isdigit_def digits_value_def)
  from rows d s l yr show ?thesis by blast
qed

lemma late_rows:
  assumes "prepare sample_pandas (read_csv late_csv) = Inr X"
  shows "\<exists>x1. rows X = [(1, x1)] \<and> x1 ''date'' = Stamp (2024, 8, 15) \<and> x1 ''season'' = NA \<and>
     x1 ''y'' = Whole 1 \<and> x1 ''year'' = Whole 2024"
proof -
  let ?L = sample_pandas and ?df = "read_csv late_csv"
  from prepare_rows [OF prepare_Inr [OF assms]] obtain F where
    F: "prepare ?L ?df = Inr \<lparr>columns = all_columns,
          rows = map_rows F (filter (\<lambda>(i, r). retained ?L r) (rows ?df))\<rparr>"
    and date: "\<And>r. F r ''date'' = to_datetime_coerce ?L (r ''MatchDate'')"
    and result: "\<And>r. F r ''result'' = result_cell ?L (r ''FTResult'')"
    and season: "\<And>r. F r ''season'' = df_get ?df ''Season'' r"
    and y: "\<And>r. F r ''y'' = y_cell (F r)"
    and year: "\<And>r. F r ''year'' = (if season_seen ?L ?df then season_year ?L (F r) else date_year ?L (F r))"
    by blast
  let ?r1 = "match_row (Txt ''2024-08-15'') (Txt ''A'') NA"
  from F assms have rows: "rows X = [(1, F ?r1)]"
    by (simp add: late_retained map_rows_def)
  have d: "F ?r1 ''date'' = Stamp (2024, 8, 15)"
    by (simp_all add: date sample_defs)
  have s: "F ?r1 ''season'' = NA"
    by (simp_all add: season df_get_def read_csv_def sample_defs)
  have l: "F ?r1 ''y'' = Whole 1"
    by (simp_all add: y y_cell_def result result_cell_def sample_defs)
  have yr: "F ?r1 ''year'' = Whole 2024"
    by (simp_all add: year late_season_seen date_year_def d sample_dt_year)
  from rows d s l yr show ?thesis by blast
qed

section \<open>The claims\<close>

subsection \<open>Errors\<close>

lemma main_schema_error:
  assumes "matches_csv fs = Some f" and "filter (\<lambda>c. c \<notin> set (names f)) must_have \<noteq> []"
  shows "main L fs =
    Inl (RuntimeError (''MATCHES.csv missing required columns: '' @
      repr_list (filter (\<lambda>c. c \<notin> set (names f)) must_have)))"
  using assms by (simp add: main_def Let_def read_csv_def)

lemma prepare_errors:
  "prepare L df = Inl e \<Longrightarrow> e = ValueError \<or> e = AttributeError \<or> e = IntCastingNaNError"
  by (auto simp: prepare_def add_year_def Let_def split: date_kind.splits if_splits)

lemma main_passed:
  assumes "matches_csv fs = Some f" and "filter (\<lambda>c. c \<notin> set (names f)) must_have = []"
  shows "main L fs =
    (case prepare L (read_csv f) of
       Inl e \<Rightarrow> Inl e
     | Inr X \<Rightarrow>
         Inr (diagnostics X,
              fs\<lparr>data_dir := True, stage1_features := Some (to_csv (out_cols X) X)\<rparr>))"
  using assms by (simp add: main_def Let_def read_csv_def)

text \<open>
  Claim C7. When the input file does not exist the run fails with \<open>FileNotFoundError\<close>
  (the spec's \<open>MissingInputError\<close>), and the message names the expected path and tells the
  operator to clone the dataset into \<open>external/\<close>. When the file exists and some of
  \<open>MatchDate\<close>, \<open>FTResult\<close>, \<open>HomeTeam\<close>, \<open>AwayTeam\<close> are not among its columns,
  the run fails with \<open>RuntimeError\<close> (the spec's \<open>SchemaError\<close>), and the message lists
  exactly the missing names, in that order. In every other case the run raises neither of
  the two, whatever else it does.
\<close>

theorem main_errors:
  "(matches_csv fs = None \<longrightarrow>
      main L fs = Inl (FileNotFoundError
        ''Missing external/Club-Football-Match-Data-2000-2025/data/MATCHES.csv. Clone the dataset into external/.'')) \<and>
   (\<forall>f. matches_csv fs = Some f \<longrightarrow>
      (let missing = filter (\<lambda>c. c \<notin> set (names f)) [''MatchDate'', ''FTResult'', ''HomeTeam'', ''AwayTeam'']
       in if missing = []
          then \<forall>m. main L fs \<noteq> Inl (FileNotFoundError m) \<and> main L fs \<noteq> Inl (RuntimeError m)
          else main L fs =
                 Inl (RuntimeError (''MATCHES.csv missing required columns: '' @ repr_list missing))))"
proof (intro conjI impI allI)
  assume "matches_csv fs = None"
  then show "main L fs = Inl (FileNotFoundError
        ''Missing external/Club-Football-Match-Data-2000-2025/data/MATCHES.csv. Clone the dataset into external/.'')"
    by (simp add: main_def MATCHES_CSV_def)
next
  fix f assume f: "matches_csv fs = Some f"
  let ?missing = "filter (\<lambda>c. c \<notin> set (names f)) [''MatchDate'', ''FTResult'', ''HomeTeam'', ''AwayTeam'']"
  show "let missing = ?missing
       in if missing = []
          then \<forall>m. main L fs \<noteq> Inl (FileNotFoundError m) \<and> main L fs \<noteq> Inl (RuntimeError m)
          else main L fs =
                 Inl (RuntimeError (''MATCHES.csv missing required columns: '' @ repr_list missing))"
  proof (cases "?missing = []")
    case True
    note run = main_passed [unfolded must_have_def, OF f True]
    have "\<forall>m. main L fs \<noteq> Inl (FileNotFoundError m) \<and> main L fs \<noteq> Inl (RuntimeError m)"
    proof (cases "prepare L (read_csv f)")
      case (Inl e)
      with prepare_errors [OF Inl] run show ?thesis by auto
    next
      case (Inr X)
      with run show ?thesis by simp
    qed
    with True show ?thesis by simp
  next
    case False
    have "main L fs = Inl (RuntimeError (''MATCHES.csv missing required columns: '' @ repr_list ?missing))"
      using f False by (rule main_schema_error [unfolded must_have_def])
    with False show ?thesis by (simp only: Let_def if_False)
  qed
qed

theorem main_errors_witness:
  "main sample_pandas (sample_files\<lparr>matches_csv := None\<rparr>) =
     Inl (FileNotFoundError
       ''Missing external/Club-Football-Match-Data-2000-2025/data/MATCHES.csv. Clone the dataset into external/.'') \<and>
   main sample_pandas (sample_files\<lparr>matches_csv := Some short_csv\<rparr>) =
     Inl (RuntimeError (''MATCHES.csv missing required columns: ['' @ [CHR 0x27] @ ''FTResult'' @
        [CHR 0x27] @ '', '' @ [CHR 0x27] @ ''AwayTeam'' @ [CHR 0x27] @ '']'')) \<and>
   (\<forall>m. main sample_pandas sample_files \<noteq> Inl (FileNotFoundError m) \<and>
        main sample_pandas sample_files \<noteq> Inl (RuntimeError m)) \<and>
   (\<forall>m. main (sample_pandas\<lparr>date_column := \<lambda>vs. Objects\<rparr>) sample_files \<noteq> Inl (FileNotFoundError m) \<and>
        main (sample_pandas\<lparr>date_column := \<lambda>vs. Objects\<rparr>) sample_files \<noteq> Inl (RuntimeError m))"
proof -
  have a: "matches_csv (sample_files\<lparr>matches_csv := None\<rparr>) = None" by simp
  have b: "matches_csv (sample_files\<lparr>matches_csv := Some short_csv\<rparr>) = Some short_csv" by simp
  have c: "matches_csv sample_files = Some sample_csv" by (simp add: sample_files_def)
  from main_errors [of "sample_files\<lparr>matches_csv := None\<rparr>" sample_pandas] a
  have 1: "main sample_pandas (sample_files\<lparr>matches_csv := None\<rparr>) =
     Inl (FileNotFoundError
       ''Missing external/Club-Football-Match-Data-2000-2025/data/MATCHES.csv. Clone the dataset into external/.'')"
    by blast
  from main_errors [of "sample_files\<lparr>matches_csv := Some short_csv\<rparr>" sample_pandas] b
  have 2: "main sample_pandas (sample_files\<lparr>matches_csv := Some short_csv\<rparr>) =
     Inl (RuntimeError (''MATCHES.csv missing required columns: ['' @ [CHR 0x27] @ ''FTResult'' @
        [CHR 0x27] @ '', '' @ [CHR 0x27] @ ''AwayTeam'' @ [CHR 0x27] @ '']''))"
    by (simp add: short_csv_def repr_list_def)
  from main_errors [of sample_files sample_pandas] c
  have 3: "\<forall>m. main sample_pandas sample_files \<noteq> Inl (FileNotFoundError m) \<and>
        main sample_pandas sample_files \<noteq> Inl (RuntimeError m)"
    by (simp add: sample_csv_def)
  from main_errors [of sample_files "sample_pandas\<lparr>date_column := \<lambda>vs. Objects\<rparr>"] c
  have 4: "\<forall>m. main (sample_pandas\<lparr>date_column := \<lambda>vs. Objects\<rparr>) sample_files \<noteq> Inl (FileNotFoundError m) \<and>
        main (sample_pandas\<lparr>date_column := \<lambda>vs. Objects\<rparr>) sample_files \<noteq> Inl (RuntimeError m)"
    by (simp add: sample_csv_def)
  from 1 2 3 4 show ?thesis by (intro conjI)
qed

subsection \<open>The year and the split\<close>

lemma extract4_nan: "extract4 ''nan'' = None"
  by (simp add: isdigit_def)

lemma season_year_eq:
  "season_year L x =
     (case extract4 (astype_str L (x ''season'')) of
        Some s \<Rightarrow> Whole (digits_value s)
      | None \<Rightarrow> date_year L x)"
  by (cases "x ''season''") (simp_all add: season_year_def extract4_nan)

lemma prepare_year:
  assumes "prepare L df = Inr X" and "(i, x) \<in> set (rows X)"
  shows "\<exists>d. x ''date'' = Stamp d \<and>
           x ''year'' =
             (if season_seen L df
              then (case extract4 (astype_str L (x ''season'')) of
                      Some s \<Rightarrow> Whole (digits_value s)
                    | None \<Rightarrow> Whole (dt_year L d))
              else Whole (dt_year L d))"
proof -
  from prepare_row [OF assms] obtain r where r: "retained L r"
    and date: "x ''date'' = to_datetime_coerce L (r ''MatchDate'')"
    and year: "x ''year'' = (if season_seen L df then season_year L x else date_year L x)"
    by blast
  from retained_Stamp [OF r] date obtain d where d: "x ''date'' = Stamp d" by auto
  have "date_year L x = Whole (dt_year L d)" using d by (simp add: date_year_def)
  then have "x ''year'' =
             (if season_seen L df
              then (case extract4 (astype_str L (x ''season'')) of
                      Some s \<Rightarrow> Whole (digits_value s)
                    | None \<Rightarrow> Whole (dt_year L d))
              else Whole (dt_year L d))"
    using year by (simp add: season_year_eq split: option.splits)
  with d show ?thesis by blast
qed

lemma prepare_year_Whole:
  assumes "prepare L df = Inr X" and "(i, x) \<in> set (rows X)"
  shows "\<exists>k. x ''year'' = Whole k"
  using prepare_year [OF assms] by (auto split: option.splits if_splits)

lemma rows_select: "rows (select m X) = filter (\<lambda>(i, x). m x) (rows X)"
  by (simp add: select_def)

lemma in_index_select:
  assumes "distinct (index X)" and "(i, x) \<in> set (rows X)"
  shows "i \<in> set (index (select m X)) \<longleftrightarrow> m x"
proof
  assume "i \<in> set (index (select m X))"
  then obtain x' where x': "(i, x') \<in> set (rows X)" "m x'"
    by (auto simp: index_def rows_select)
  from assms(1) have "distinct (map fst (rows X))" by (simp add: index_def)
  from eq_key_imp_eq_value [OF this x'(1) assms(2)] x'(2) show "m x" by simp
next
  assume "m x"
  with assms(2) show "i \<in> set (index (select m X))"
    by (force simp: index_def rows_select)
qed

text \<open>
  Claim C5. The training rows (year at most 2022), the validation rows (year 2023) and
  the test rows (year 2024) are pairwise disjoint; together they are exactly the rows of
  the table whose year is at most 2024; a row with a later year is in none of them.
\<close>

theorem splits_partition:
  assumes "prepare L (read_csv f) = Inr X"
  shows "set (index (train X)) \<inter> set (index (validation X)) = {} \<and>
         set (index (train X)) \<inter> set (index (test X)) = {} \<and>
         set (index (validation X)) \<inter> set (index (test X)) = {} \<and>
         set (rows (train X)) \<union> set (rows (validation X)) \<union> set (rows (test X)) =
           {p \<in> set (rows X). \<exists>k\<le>2024. snd p ''year'' = Whole k} \<and>
         (\<forall>(i, x) \<in> set (rows X). \<exists>k. x ''year'' = Whole k \<and>
            (i \<in> set (index (train X)) \<longleftrightarrow> k \<le> 2022) \<and>
            (i \<in> set (index (validation X)) \<longleftrightarrow> k = 2023) \<and>
            (i \<in> set (index (test X)) \<longleftrightarrow> k = 2024))"
proof -
  have dist: "distinct (index X)" using assms by (rule index_distinct)
  have member: "\<exists>k. x ''year'' = Whole k \<and>
            (i \<in> set (index (train X)) \<longleftrightarrow> k \<le> 2022) \<and>
            (i \<in> set (index (validation X)) \<longleftrightarrow> k = 2023) \<and>
            (i \<in> set (index (test X)) \<longleftrightarrow> k = 2024)" if "(i, x) \<in> set (rows X)" for i x
  proof -
    from prepare_year_Whole [OF assms that] obtain k where k: "x ''year'' = Whole k" by blast
    have "i \<in> set (index (train X)) \<longleftrightarrow> k \<le> 2022"
      unfolding train_def in_index_select [OF dist that] by (simp add: year_le_def k)
    moreover have "i \<in> set (index (validation X)) \<longleftrightarrow> k = 2023"
      unfolding validation_def in_index_select [OF dist that] by (simp add: year_eq_def k)
    moreover have "i \<in> set (index (test X)) \<longleftrightarrow> k = 2024"
      unfolding test_def in_index_select [OF dist that] by (simp add: year_eq_def k)
    ultimately show ?thesis using k by blast
  qed
  have sub: "i \<in> set (index (select m X)) \<Longrightarrow> \<exists>x. (i, x) \<in> set (rows X)" for i m
    by (auto simp: index_def rows_select)
  have d1: "set (index (train X)) \<inter> set (index (validation X)) = {}"
  proof (rule ccontr)
    assume "set (index (train X)) \<inter> set (index (validation X)) \<noteq> {}"
    then obtain i where i: "i \<in> set (index (train X))" "i \<in> set (index (validation X))" by blast
    from sub [of i "year_le 2022"] i(1) obtain x where "(i, x) \<in> set (rows X)"
      by (auto simp: train_def)
    from member [OF this] i show False by auto
  qed
  have d2: "set (index (train X)) \<inter> set (index (test X)) = {}"
  proof (rule ccontr)
    assume "set (index (train X)) \<inter> set (index (test X)) \<noteq> {}"
    then obtain i where i: "i \<in> set (index (train X))" "i \<in> set (index (test X))" by blast
    from sub [of i "year_le 2022"] i(1) obtain x where "(i, x) \<in> set (rows X)"
      by (auto simp: train_def)
    from member [OF this] i show False by auto
  qed
  have d3: "set (index (validation X)) \<inter> set (index (test X)) = {}"
  proof (rule ccontr)
    assume "set (index (validation X)) \<inter> set (index (test X)) \<noteq> {}"
    then obtain i where i: "i \<in> set (index (validation X))" "i \<in> set (index (test X))" by blast
    from sub [of i "year_eq 2023"] i(1) obtain x where "(i, x) \<in> set (rows X)"
      by (auto simp: validation_def)
    from member [OF this] i show False by auto
  qed
  have u: "set (rows (train X)) \<union> set (rows (validation X)) \<union> set (rows (test X)) =
           {p \<in> set (rows X). \<exists>k\<le>2024. snd p ''year'' = Whole k}"
  proof (intro set_eqI iffI)
    fix p assume p: "p \<in> set (rows (train X)) \<union> set (rows (validation X)) \<union> set (rows (test X))"
    obtain i x where ix: "p = (i, x)" by (cases p)
    from p have in_X: "(i, x) \<in> set (rows X)"
      and m: "year_le 2022 x \<or> year_eq 2023 x \<or> year_eq 2024 x"
      by (auto simp: ix train_def validation_def test_def rows_select)
    from prepare_year_Whole [OF assms in_X] obtain k where k: "x ''year'' = Whole k" by blast
    from m have "k \<le> 2024" by (auto simp: year_le_def year_eq_def k)
    with k in_X show "p \<in> {p \<in> set (rows X). \<exists>k\<le>2024. snd p ''year'' = Whole k}"
      by (simp add: ix)
  next
    fix p assume p: "p \<in> {p \<in> set (rows X). \<exists>k\<le>2024. snd p ''year'' = Whole k}"
    then obtain k where k: "k \<le> 2024" "snd p ''year'' = Whole k" and in_X: "p \<in> set (rows X)"
      by blast
    from k(1) have "k \<le> 2022 \<or> k = 2023 \<or> k = 2024" by arith
    with k(2) in_X show "p \<in> set (rows (train X)) \<union> set (rows (validation X)) \<union> set (rows (test X))"
      by (cases p) (auto simp: train_def validation_def test_def rows_select year_le_def year_eq_def)
  qed
  have all: "\<forall>(i, x) \<in> set (rows X). \<exists>k. x ''year'' = Whole k \<and>
            (i \<in> set (index (train X)) \<longleftrightarrow> k \<le> 2022) \<and>
            (i \<in> set (index (validation X)) \<longleftrightarrow> k = 2023) \<and>
            (i \<in> set (index (test X)) \<longleftrightarrow> k = 2024)"
  proof (intro ballI)
    fix p assume "p \<in> set (rows X)"
    then show "case p of (i, x) \<Rightarrow> \<exists>k. x ''year'' = Whole k \<and>
            (i \<in> set (index (train X)) \<longleftrightarrow> k \<le> 2022) \<and>
            (i \<in> set (index (validation X)) \<longleftrightarrow> k = 2023) \<and>
            (i \<in> set (index (test X)) \<longleftrightarrow> k = 2024)"
      using member [of "fst p" "snd p"] by (simp add: case_prod_unfold)
  qed
  show ?thesis by (intro conjI d1 d2 d3 u all)
qed

theorem splits_partition_witness:
  "\<exists>X x0 x4 x5. prepare sample_pandas (read_csv sample_csv) = Inr X \<and>
     rows X = [(0, x0), (4, x4), (5, x5)] \<and>
     x0 ''year'' = Whole 2020 \<and> x4 ''year'' = Whole 2024 \<and> x5 ''year'' = Whole 2025 \<and>
     0 \<in> set (index (train X)) \<and> 4 \<in> set (index (test X)) \<and>
     5 \<notin> set (index (train X)) \<and> 5 \<notin> set (index (validation X)) \<and> 5 \<notin> set (index (test X)) \<and>
     set (index (train X)) \<inter> set (index (test X)) = {}"
proof -
  obtain X where X: "prepare sample_pandas (read_csv sample_csv) = Inr X"
    using sample_prepare by blast
  from sample_rows [OF X] obtain x0 x4 x5 where rows: "rows X = [(0, x0), (4, x4), (5, x5)]"
    and yr: "x0 ''year'' = Whole 2020" "x4 ''year'' = Whole 2024" "x5 ''year'' = Whole 2025"
    by blast
  note part = splits_partition [OF X]
  from part have all: "\<forall>(i, x) \<in> set (rows X). \<exists>k. x ''year'' = Whole k \<and>
            (i \<in> set (index (train X)) \<longleftrightarrow> k \<le> 2022) \<and>
            (i \<in> set (index (validation X)) \<longleftrightarrow> k = 2023) \<and>
            (i \<in> set (index (test X)) \<longleftrightarrow> k = 2024)" by (elim conjE)
  have "0 \<in> set (index (train X))" using all yr(1) by (simp add: rows)
  moreover have "4 \<in> set (index (test X))" using all yr(2) by (simp add: rows)
  moreover have "5 \<notin> set (index (train X)) \<and> 5 \<notin> set (index (validation X)) \<and> 5 \<notin> set (index (test X))"
    using all yr(3) by (simp add: rows)
  moreover from part have "set (index (train X)) \<inter> set (index (test X)) = {}" by (elim conjE)
  ultimately show ?thesis using X rows yr by (intro exI [of _ X] exI [of _ x0] exI [of _ x4] exI [of _ x5]) simp
qed

lemma ball_pairI:
  assumes "\<And>i x. (i, x) \<in> A \<Longrightarrow> P i x"
  shows "\<forall>(i, x) \<in> A. P i x"
  using assms by auto

lemma to_datetime_coerce_Stamp:
  "to_datetime_coerce L v = Stamp d \<longleftrightarrow> \<not> isna v \<and> to_datetime L v = Some d"
  by (cases v) (auto split: option.splits)

lemma any_season_derived:
  "any_season (derive L (encode (build_X L df))) = season_seen L df"
proof -
  from derived_rows [of L df] obtain F where
    rows: "rows (derive L (encode (build_X L df))) =
         map_rows F (filter (\<lambda>(i, r). retained L r) (rows df))"
    and season: "\<And>r. F r ''season'' = df_get df ''Season'' r"
    by blast
  show ?thesis
    by (simp add: any_season_def rows list_ex_map_rows season season_seen_def)
qed

lemma season_seen_read_csv:
  "season_seen L (read_csv f) \<longleftrightarrow>
     (\<exists>i<length (records f). retained L (records f ! i) \<and>
        \<not> isna (df_get (read_csv f) ''Season'' (records f ! i)))"
  by (auto simp: season_seen_def list_ex_iff in_rows_read_csv)

lemma prepare_row_csv:
  assumes "prepare L (read_csv f) = Inr X" and "(i, x) \<in> set (rows X)"
  shows "i < length (records f) \<and> retained L (records f ! i) \<and>
         x ''date'' = to_datetime_coerce L ((records f ! i) ''MatchDate'') \<and>
         x ''home'' = (records f ! i) ''HomeTeam'' \<and>
         x ''away'' = (records f ! i) ''AwayTeam'' \<and>
         x ''result'' = Txt (upper (astype_str L ((records f ! i) ''FTResult''))) \<and>
         x ''season'' = df_get (read_csv f) ''Season'' (records f ! i) \<and>
         x ''y'' = y_cell x"
  using prepare_row [OF assms] by (auto simp: in_rows_read_csv)


lemma prepare_kinds:
  "prepare L df = Inl ValueError \<longleftrightarrow> date_column L (match_dates df) = Refused"
  "prepare L df = Inl AttributeError \<longleftrightarrow> date_column L (match_dates df) = Objects"
  "(\<exists>X. prepare L df = Inr X) \<longleftrightarrow> date_column L (match_dates df) = Datetimes"
proof -
  show "(\<exists>X. prepare L df = Inr X) \<longleftrightarrow> date_column L (match_dates df) = Datetimes"
    using prepare_total [of L df] prepare_Inr [of L df] by blast
  then show "prepare L df = Inl ValueError \<longleftrightarrow> date_column L (match_dates df) = Refused"
    by (cases "date_column L (match_dates df)") (auto simp: prepare_def add_year_def)
  show "prepare L df = Inl AttributeError \<longleftrightarrow> date_column L (match_dates df) = Objects"
    using \<open>(\<exists>X. prepare L df = Inr X) \<longleftrightarrow> date_column L (match_dates df) = Datetimes\<close>
    by (cases "date_column L (match_dates df)") (auto simp: prepare_def add_year_def)
qed


text \<open>
  \<open>extract4\<close> finds the first four consecutive digits: what it returns is a window of
  four digits of the string with no such window starting further left, and it returns
  nothing only when the string has no such window.
\<close>

lemma extract4_first:
  "extract4 s = Some t \<Longrightarrow>
   \<exists>pre post. s = pre @ t @ post \<and> length t = 4 \<and> list_all isdigit t \<and>
     (\<forall>k<length pre. \<not> (4 \<le> length (drop k s) \<and> list_all isdigit (take 4 (drop k s))))"
proof (induction s)
  case Nil
  then show ?case by simp
next
  case (Cons c cs)
  show ?case
  proof (cases "4 \<le> length (c # cs) \<and> list_all isdigit (take 4 (c # cs))")
    case True
    with Cons.prems have t: "t = take 4 (c # cs)" by simp
    have "c # cs = [] @ t @ drop 4 (c # cs)" by (simp add: t)
    moreover have "length t = 4" using True by (simp add: t)
    moreover have "list_all isdigit t" using True by (simp add: t)
    ultimately show ?thesis by (intro exI [of _ "[]"] exI [of _ "drop 4 (c # cs)"]) simp_all
  next
    case False
    with Cons.prems have "extract4 cs = Some t" by (auto split: if_splits)
    from Cons.IH [OF this] obtain pre post where cs: "cs = pre @ t @ post"
      and len: "length t = 4" and dig: "list_all isdigit t"
      and first: "\<forall>k<length pre. \<not> (4 \<le> length (drop k cs) \<and> list_all isdigit (take 4 (drop k cs)))"
      by blast
    have "\<not> (4 \<le> length (drop k (c # cs)) \<and> list_all isdigit (take 4 (drop k (c # cs))))"
      if "k < length (c # pre)" for k
    proof (cases k)
      case 0
      with False show ?thesis by simp
    next
      case (Suc k')
      with that first show ?thesis by simp
    qed
    with cs len dig show ?thesis
      by (intro exI [of _ "c # pre"] exI [of _ post]) simp
  qed
qed

lemma extract4_none:
  "extract4 s = None \<Longrightarrow> \<not> (4 \<le> length (drop k s) \<and> list_all isdigit (take 4 (drop k s)))"
proof (induction s arbitrary: k)
  case Nil
  then show ?case by simp
next
  case (Cons c cs)
  then have here: "\<not> (4 \<le> length (c # cs) \<and> list_all isdigit (take 4 (c # cs)))"
    and rest: "extract4 cs = None" by (simp_all split: if_splits)
  show ?case
  proof (cases k)
    case 0
    with here show ?thesis by simp
  next
    case (Suc k')
    with Cons.IH [OF rest, of k'] show ?thesis by simp
  qed
qed



text \<open>
  Claim C10. Whether some row has a season label is asked of the table as it stands at
  line 72, after the rows without a date, a result or a label have been dropped. When
  every source row that carries a season label has been dropped, the test of line 72
  fails and the year of every row of the table is the calendar year of its match date.
\<close>

theorem season_decision_after_drops:
  assumes "prepare L (read_csv f) = Inr X"
    and "\<forall>i<length (records f).
           \<not> isna (df_get (read_csv f) ''Season'' (records f ! i)) \<longrightarrow> i \<notin> set (index X)"
  shows "\<not> any_season (derive L (encode (build_X L (read_csv f)))) \<and>
         (\<forall>(i, x) \<in> set (rows X). \<exists>d.
            to_datetime L ((records f ! i) ''MatchDate'') = Some d \<and>
            x ''date'' = Stamp d \<and> x ''year'' = Whole (dt_year L d))"
proof -
  have idx: "index X = filter (\<lambda>i. retained L (records f ! i)) [0..<length (records f)]"
    using assms(1) by (rule index_read_csv)
  have no: "\<not> season_seen L (read_csv f)"
  proof
    assume "season_seen L (read_csv f)"
    then obtain i where i: "i < length (records f)" "retained L (records f ! i)"
      "\<not> isna (df_get (read_csv f) ''Season'' (records f ! i))"
      unfolding season_seen_read_csv by blast
    from i(1,2) have "i \<in> set (index X)" by (simp add: idx)
    with assms(2) i(1,3) show False by blast
  qed
  have row: "\<exists>d. to_datetime L ((records f ! i) ''MatchDate'') = Some d \<and>
            x ''date'' = Stamp d \<and> x ''year'' = Whole (dt_year L d)" if "(i, x) \<in> set (rows X)" for i x
  proof -
    from prepare_year [OF assms(1) that] no obtain d where d: "x ''date'' = Stamp d"
      and year: "x ''year'' = Whole (dt_year L d)" by auto
    from prepare_row_csv [OF assms(1) that]
    have "x ''date'' = to_datetime_coerce L ((records f ! i) ''MatchDate'')" by blast
    with d have "to_datetime L ((records f ! i) ''MatchDate'') = Some d"
      by (simp add: to_datetime_coerce_Stamp)
    with d year show ?thesis by blast
  qed
  have "\<forall>(i, x) \<in> set (rows X). \<exists>d.
            to_datetime L ((records f ! i) ''MatchDate'') = Some d \<and>
            x ''date'' = Stamp d \<and> x ''year'' = Whole (dt_year L d)"
    by (rule ball_pairI) (erule row)
  with no show ?thesis by (simp add: any_season_derived)
qed

theorem season_decision_after_drops_witness:
  "\<not> isna (df_get (read_csv late_csv) ''Season'' (records late_csv ! 0)) \<and>
   \<not> isna (df_get (read_csv late_csv) ''Season'' (records late_csv ! 2)) \<and>
   (\<exists>X x1. prepare sample_pandas (read_csv late_csv) = Inr X \<and> rows X = [(1, x1)] \<and>
      \<not> any_season (derive sample_pandas (encode (build_X sample_pandas (read_csv late_csv)))) \<and>
      x1 ''date'' = Stamp (2024, 8, 15) \<and> x1 ''year'' = Whole 2024)"
proof -
  obtain X where X: "prepare sample_pandas (read_csv late_csv) = Inr X"
    using sample_prepare by blast
  from late_rows [OF X] obtain x1 where rows: "rows X = [(1, x1)]"
    and d: "x1 ''date'' = Stamp (2024, 8, 15)" by blast
  have season: "\<not> isna (df_get (read_csv late_csv) ''Season'' (records late_csv ! 0))"
    "isna (df_get (read_csv late_csv) ''Season'' (records late_csv ! 1))"
    "\<not> isna (df_get (read_csv late_csv) ''Season'' (records late_csv ! 2))"
    by (simp_all add: df_get_def read_csv_def late_csv_def match_row_def record_of_def)
  have len: "length (records late_csv) = 3" by (simp add: late_csv_def)
  have hyp: "\<forall>i<length (records late_csv).
           \<not> isna (df_get (read_csv late_csv) ''Season'' (records late_csv ! i)) \<longrightarrow> i \<notin> set (index X)"
  proof (intro allI impI)
    fix i assume "i < length (records late_csv)"
      and s: "\<not> isna (df_get (read_csv late_csv) ''Season'' (records late_csv ! i))"
    then have "i = 0 \<or> i = 1 \<or> i = 2" unfolding len by arith
    with s season(2) have "i \<noteq> 1" by auto
    then show "i \<notin> set (index X)" by (simp add: index_def rows)
  qed
  from season_decision_after_drops [OF X hyp]
  have no: "\<not> any_season (derive sample_pandas (encode (build_X sample_pandas (read_csv late_csv))))"
    and all: "\<forall>(i, x) \<in> set (rows X). \<exists>d.
            to_datetime sample_pandas ((records late_csv ! i) ''MatchDate'') = Some d \<and>
            x ''date'' = Stamp d \<and> x ''year'' = Whole (dt_year sample_pandas d)"
    by blast+
  from all have yr: "x1 ''year'' = Whole 2024"
    by (simp add: rows d sample_dt_year)
  from season(1,3) X rows no d yr show ?thesis
    by (intro conjI exI [of _ X] exI [of _ x1]) simp_all
qed

subsection \<open>The label\<close>





lemma length_upper: "length (upper s) = length s"
  by (simp add: upper_def)

lemma retained_result:
  "retained L r \<Longrightarrow> upper (astype_str L (r ''FTResult'')) \<in> {''A'', ''D'', ''H''}"
  by (simp add: retained_def map_features_def)

lemma y_cell_result:
  "x ''result'' = Txt s \<Longrightarrow>
   y_cell x = (if s = ''A'' then Whole 1 else if s = ''D'' then Whole 2
               else if s = ''H'' then Whole 3 else NA)"
  by (simp add: y_cell_def map_features_def)



lemma out_cols_prepare:
  "prepare L df = Inr X \<Longrightarrow>
   out_cols X = [''date'', ''home'', ''away'', ''y'', ''year'', ''d_elo'', ''d_form3'', ''d_form5'',
                 ''d_shots'', ''d_sot'', ''d_corners'', ''d_yc'', ''d_rc'']"
  by (simp add: out_cols_def feature_cols_all prepare_columns d_names_def)


lemma sample_main:
  "prepare sample_pandas (read_csv sample_csv) = Inr X \<Longrightarrow>
   main sample_pandas sample_files =
     Inr (diagnostics X,
          sample_files\<lparr>data_dir := True, stage1_features := Some (to_csv (out_cols X) X)\<rparr>)"
  unfolding main_success by (simp add: sample_files_def sample_csv_def must_have_def)


text \<open>
  Claim C9. The result is uppercased but not trimmed. A source row whose result is one
  letter with anything before or after it, blanks included, keeps the surrounding
  characters in the table's result, gets a missing label from the mapping of line 49, and
  is not in the table, so not in the written table.
\<close>

theorem padded_result_dropped:
  assumes "main L fs = Inr (rep, fs')" and "matches_csv fs = Some f"
    and "i < length (records f)"
    and "(records f ! i) ''FTResult'' = Txt (pre @ [c] @ post)"
    and "pre \<noteq> [] \<or> post \<noteq> []"
  shows "dict_row (X_dict L (read_csv f)) (records f ! i) ''result'' =
           Txt (upper pre @ [upper_char c] @ upper post) \<and>
         y_cell (dict_row (X_dict L (read_csv f)) (records f ! i)) = NA \<and>
         (\<exists>X. prepare L (read_csv f) = Inr X \<and>
              stage1_features fs' = Some (to_csv (out_cols X) X) \<and>
              i \<notin> set (index X))"
proof -
  let ?s = "pre @ [c] @ post"
  from assms(1,2) obtain X where X: "prepare L (read_csv f) = Inr X"
    and fs': "fs' = fs\<lparr>data_dir := True, stage1_features := Some (to_csv (out_cols X) X)\<rparr>"
    unfolding main_success by auto
  have res: "dict_row (X_dict L (read_csv f)) (records f ! i) ''result'' =
           Txt (upper pre @ [upper_char c] @ upper post)"
    by (simp add: X_dict_fields result_cell_def assms(4) upper_def)
  from assms(5) have "length (upper ?s) \<noteq> 1" by (auto simp: length_upper)
  then have none: "upper ?s \<notin> {''A'', ''D'', ''H''}" by auto
  have "dict_row (X_dict L (read_csv f)) (records f ! i) ''result'' = Txt (upper ?s)"
    by (simp add: X_dict_fields result_cell_def assms(4))
  from y_cell_result [of "dict_row (X_dict L (read_csv f)) (records f ! i)", OF this] none
  have y: "y_cell (dict_row (X_dict L (read_csv f)) (records f ! i)) = NA" by auto
  from none have "\<not> retained L (records f ! i)"
    using retained_result [of L "records f ! i"] by (auto simp: assms(4))
  then have "i \<notin> set (index X)" by (simp add: index_read_csv [OF X])
  with X fs' res y show ?thesis by auto
qed

theorem padded_result_dropped_witness:
  "(records sample_csv ! 2) ''FTResult'' = Txt '' H'' \<and>
   dict_row (X_dict sample_pandas (read_csv sample_csv)) (records sample_csv ! 2) ''result'' = Txt '' H'' \<and>
   y_cell (dict_row (X_dict sample_pandas (read_csv sample_csv)) (records sample_csv ! 2)) = NA \<and>
   (\<exists>rep fs' X. main sample_pandas sample_files = Inr (rep, fs') \<and>
      prepare sample_pandas (read_csv sample_csv) = Inr X \<and>
      stage1_features fs' = Some (to_csv (out_cols X) X) \<and> 2 \<notin> set (index X))"
proof -
  obtain X0 where X0: "prepare sample_pandas (read_csv sample_csv) = Inr X0"
    using sample_prepare by blast
  note run = sample_main [OF X0]
  have f: "matches_csv sample_files = Some sample_csv" by (simp add: sample_files_def)
  have len: "2 < length (records sample_csv)" by (simp add: sample_csv_def)
  have res: "(records sample_csv ! 2) ''FTResult'' = Txt ('' '' @ [CHR ''H''] @ [])"
    by (simp add: sample_csv_def match_row_def record_of_def)
  have pad: "'' '' \<noteq> [] \<or> ([] :: string) \<noteq> []" by simp
  note drop = padded_result_dropped [OF run f len res pad]
  from drop have a: "dict_row (X_dict sample_pandas (read_csv sample_csv)) (records sample_csv ! 2) ''result'' =
           Txt (upper '' '' @ [upper_char CHR ''H''] @ upper [])"
    by (elim conjE)
  from drop have b: "y_cell (dict_row (X_dict sample_pandas (read_csv sample_csv)) (records sample_csv ! 2)) = NA"
    by (elim conjE)
  from drop have c: "\<exists>X. prepare sample_pandas (read_csv sample_csv) = Inr X \<and>
              stage1_features (sample_files\<lparr>data_dir := True,
                stage1_features := Some (to_csv (out_cols X0) X0)\<rparr>) = Some (to_csv (out_cols X) X) \<and>
              2 \<notin> set (index X)"
    by (elim conjE)
  from a have a': "dict_row (X_dict sample_pandas (read_csv sample_csv)) (records sample_csv ! 2) ''result'' = Txt '' H''"
    by (simp add: upper_def upper_char_def)
  from res have res': "(records sample_csv ! 2) ''FTResult'' = Txt '' H''" by simp
  from c run have "\<exists>rep fs' X. main sample_pandas sample_files = Inr (rep, fs') \<and>
      prepare sample_pandas (read_csv sample_csv) = Inr X \<and>
      stage1_features fs' = Some (to_csv (out_cols X) X) \<and> 2 \<notin> set (index X)"
    by blast
  with res' a' b show ?thesis by (intro conjI)
qed

subsection \<open>The written table\<close>

lemma written_header:
  assumes "main L fs = Inr (rep, fs')"
  shows "\<exists>t. stage1_features fs' = Some t \<and>
           header t = [''date'', ''home'', ''away'', ''y'', ''year'', ''d_elo'', ''d_form3'', ''d_form5'',
                       ''d_shots'', ''d_sot'', ''d_corners'', ''d_yc'', ''d_rc'']"
proof -
  from assms obtain f X where X: "prepare L (read_csv f) = Inr X"
    and fs': "fs' = fs\<lparr>data_dir := True, stage1_features := Some (to_csv (out_cols X) X)\<rparr>"
    unfolding main_success by blast
  from fs' out_cols_prepare [OF X] show ?thesis by (simp add: to_csv_def)
qed

text \<open>
  Claim C1, evaluated on the sample file, which has the column \<open>HomeShots\<close> and lacks
  \<open>AwayShots\<close>: the written table has the column \<open>d_shots\<close> all the same, and the
  columns \<open>d_sot\<close>, \<open>d_corners\<close>, \<open>d_yc\<close>, \<open>d_rc\<close>, none of whose source columns
  the file has. The test \<open>h in X and a in X\<close> of line 68 is asked of the table built at
  lines 22-45, where every key of the dict is a column.
\<close>

theorem d_shots_without_away_shots:
  "''HomeShots'' \<in> set (names sample_csv) \<and> ''AwayShots'' \<notin> set (names sample_csv) \<and>
   ''HomeTarget'' \<notin> set (names sample_csv) \<and> ''AwayTarget'' \<notin> set (names sample_csv) \<and>
   (\<exists>rep fs' t. main sample_pandas sample_files = Inr (rep, fs') \<and>
      stage1_features fs' = Some t \<and>
      header t = [''date'', ''home'', ''away'', ''y'', ''year'', ''d_elo'', ''d_form3'', ''d_form5'',
                  ''d_shots'', ''d_sot'', ''d_corners'', ''d_yc'', ''d_rc''] \<and>
      features_used rep = [''d_elo'', ''d_form3'', ''d_form5'', ''d_shots'', ''d_sot'', ''d_corners'',
                           ''d_yc'', ''d_rc''])"
proof -
  obtain X where X: "prepare sample_pandas (read_csv sample_csv) = Inr X"
    using sample_prepare by blast
  note run = sample_main [OF X]
  from written_header [OF run] obtain t where
    t: "stage1_features (sample_files\<lparr>data_dir := True,
          stage1_features := Some (to_csv (out_cols X) X)\<rparr>) = Some t"
    and h: "header t = [''date'', ''home'', ''away'', ''y'', ''year'', ''d_elo'', ''d_form3'', ''d_form5'',
                       ''d_shots'', ''d_sot'', ''d_corners'', ''d_yc'', ''d_rc'']"
    by (elim exE conjE)
  have used: "features_used (diagnostics X) = [''d_elo'', ''d_form3'', ''d_form5'', ''d_shots'',
      ''d_sot'', ''d_corners'', ''d_yc'', ''d_rc'']"
    by (simp add: diagnostics_def feature_cols_all prepare_columns [OF X] d_names_def)
  have cols: "''HomeShots'' \<in> set (names sample_csv) \<and> ''AwayShots'' \<notin> set (names sample_csv) \<and>
   ''HomeTarget'' \<notin> set (names sample_csv) \<and> ''AwayTarget'' \<notin> set (names sample_csv)"
    by (simp add: sample_csv_def)
  from run t h used have "\<exists>rep fs' t. main sample_pandas sample_files = Inr (rep, fs') \<and>
      stage1_features fs' = Some t \<and>
      header t = [''date'', ''home'', ''away'', ''y'', ''year'', ''d_elo'', ''d_form3'', ''d_form5'',
                  ''d_shots'', ''d_sot'', ''d_corners'', ''d_yc'', ''d_rc''] \<and>
      features_used rep = [''d_elo'', ''d_form3'', ''d_form5'', ''d_shots'', ''d_sot'', ''d_corners'',
                           ''d_yc'', ''d_rc'']"
    by (intro exI [of _ "diagnostics X"] exI [of _ t]
        exI [of _ "sample_files\<lparr>data_dir := True, stage1_features := Some (to_csv (out_cols X) X)\<rparr>"])
      simp
  with cols show ?thesis by (intro conjI) (elim conjE, assumption)+
qed

text \<open>
  Claim C6. The written table holds every row of the table \<open>X\<close>, in the order of
  \<open>X\<close>, which is the order of the source rows that were retained: the rows outside
  the three splits are written too. Its columns are \<open>date\<close>, \<open>home\<close>, \<open>away\<close>,
  \<open>y\<close>, \<open>year\<close>, then the difference columns that \<open>X\<close> has, in the order
  \<open>d_elo\<close>, \<open>d_form3\<close>, \<open>d_form5\<close>, \<open>d_shots\<close>, \<open>d_sot\<close>, \<open>d_corners\<close>,
  \<open>d_yc\<close>, \<open>d_rc\<close>. Each written row holds the values of its row of \<open>X\<close> in
  these columns; date, home and away come from the source row of the same index.
\<close>

theorem written_table:
  assumes "main L fs = Inr (rep, fs')"
  shows "\<exists>f X t. matches_csv fs = Some f \<and> prepare L (read_csv f) = Inr X \<and>
           stage1_features fs' = Some t \<and>
           header t = [''date'', ''home'', ''away'', ''y'', ''year''] @
             filter (\<lambda>c. c \<in> set (columns X))
               [''d_elo'', ''d_form3'', ''d_form5'', ''d_shots'', ''d_sot'', ''d_corners'', ''d_yc'', ''d_rc''] \<and>
           body t = map (\<lambda>(i, x). map x (header t)) (rows X) \<and>
           index X = filter (\<lambda>i. retained L (records f ! i)) [0..<length (records f)] \<and>
           total rep = length (rows X) \<and>
           (\<forall>(i, x) \<in> set (rows X).
              x ''date'' = to_datetime_coerce L ((records f ! i) ''MatchDate'') \<and>
              x ''home'' = (records f ! i) ''HomeTeam'' \<and>
              x ''away'' = (records f ! i) ''AwayTeam'')"
proof -
  from assms obtain f X where f: "matches_csv fs = Some f"
    and X: "prepare L (read_csv f) = Inr X"
    and rep: "rep = diagnostics X"
    and fs': "fs' = fs\<lparr>data_dir := True, stage1_features := Some (to_csv (out_cols X) X)\<rparr>"
    unfolding main_success by blast
  let ?t = "to_csv (out_cols X) X"
  have written: "stage1_features fs' = Some ?t" using fs' by simp
  have head: "header ?t = [''date'', ''home'', ''away'', ''y'', ''year''] @
             filter (\<lambda>c. c \<in> set (columns X))
               [''d_elo'', ''d_form3'', ''d_form5'', ''d_shots'', ''d_sot'', ''d_corners'', ''d_yc'', ''d_rc'']"
    by (simp add: to_csv_def out_cols_prepare [OF X] prepare_columns [OF X] all_columns_def)
  have bod: "body ?t = map (\<lambda>(i, x). map x (header ?t)) (rows X)"
    by (simp add: to_csv_def)
  have idx: "index X = filter (\<lambda>i. retained L (records f ! i)) [0..<length (records f)]"
    using X by (rule index_read_csv)
  have total: "total rep = length (rows X)" using rep by (simp add: diagnostics_def)
  have vals: "\<forall>(i, x) \<in> set (rows X).
              x ''date'' = to_datetime_coerce L ((records f ! i) ''MatchDate'') \<and>
              x ''home'' = (records f ! i) ''HomeTeam'' \<and>
              x ''away'' = (records f ! i) ''AwayTeam''"
  proof (rule ball_pairI)
    fix i x assume "(i, x) \<in> set (rows X)"
    from prepare_row_csv [OF X this]
    show "x ''date'' = to_datetime_coerce L ((records f ! i) ''MatchDate'') \<and>
              x ''home'' = (records f ! i) ''HomeTeam'' \<and>
              x ''away'' = (records f ! i) ''AwayTeam''" by (elim conjE) (intro conjI)
  qed
  show ?thesis
    by (intro exI [of _ f] exI [of _ X] exI [of _ ?t] conjI f X written head bod idx total vals)
qed

theorem written_table_witness:
  "\<exists>rep fs' t. main sample_pandas sample_files = Inr (rep, fs') \<and>
     stage1_features fs' = Some t \<and>
     header t = [''date'', ''home'', ''away'', ''y'', ''year'', ''d_elo'', ''d_form3'', ''d_form5'',
                 ''d_shots'', ''d_sot'', ''d_corners'', ''d_yc'', ''d_rc''] \<and>
     length (body t) = 3 \<and>
     map (\<lambda>row. (row ! 0, row ! 3, row ! 4)) (body t) =
       [(Stamp (2021, 8, 14), Whole 3, Whole 2020), (Stamp (2024, 8, 15), Whole 1, Whole 2024),
        (Stamp (2025, 1, 5), Whole 2, Whole 2025)] \<and>
     total rep = 3"
proof -
  obtain X0 where X0: "prepare sample_pandas (read_csv sample_csv) = Inr X0"
    using sample_prepare by blast
  note run = sample_main [OF X0]
  from written_table [OF run] obtain f X t where all:
    "matches_csv sample_files = Some f \<and> prepare sample_pandas (read_csv f) = Inr X \<and>
     stage1_features (sample_files\<lparr>data_dir := True,
          stage1_features := Some (to_csv (out_cols X0) X0)\<rparr>) = Some t \<and>
     header t = [''date'', ''home'', ''away'', ''y'', ''year''] @
             filter (\<lambda>c. c \<in> set (columns X))
               [''d_elo'', ''d_form3'', ''d_form5'', ''d_shots'', ''d_sot'', ''d_corners'', ''d_yc'', ''d_rc''] \<and>
     body t = map (\<lambda>(i, x). map x (header t)) (rows X) \<and>
     index X = filter (\<lambda>i. retained sample_pandas (records f ! i)) [0..<length (records f)] \<and>
     total (diagnostics X0) = length (rows X) \<and>
     (\<forall>(i, x) \<in> set (rows X).
              x ''date'' = to_datetime_coerce sample_pandas ((records f ! i) ''MatchDate'') \<and>
              x ''home'' = (records f ! i) ''HomeTeam'' \<and>
              x ''away'' = (records f ! i) ''AwayTeam'')"
    by (elim exE) (erule that)
  from all have f: "matches_csv sample_files = Some f" by (elim conjE)
  from all have X: "prepare sample_pandas (read_csv f) = Inr X" by (elim conjE)
  from all have t: "stage1_features (sample_files\<lparr>data_dir := True,
          stage1_features := Some (to_csv (out_cols X0) X0)\<rparr>) = Some t" by (elim conjE)
  from all have head: "header t = [''date'', ''home'', ''away'', ''y'', ''year''] @
             filter (\<lambda>c. c \<in> set (columns X))
               [''d_elo'', ''d_form3'', ''d_form5'', ''d_shots'', ''d_sot'', ''d_corners'', ''d_yc'', ''d_rc'']"
    by (elim conjE)
  from all have bod: "body t = map (\<lambda>(i, x). map x (header t)) (rows X)" by (elim conjE)
  from all have total: "total (diagnostics X0) = length (rows X)" by (elim conjE)
  from f have f_eq: "f = sample_csv" by (simp add: sample_files_def)
  have head': "header t = [''date'', ''home'', ''away'', ''y'', ''year'', ''d_elo'', ''d_form3'', ''d_form5'',
                 ''d_shots'', ''d_sot'', ''d_corners'', ''d_yc'', ''d_rc'']"
    unfolding head by (simp add: prepare_columns [OF X] all_columns_def)
  from sample_rows [OF X [unfolded f_eq]] obtain x0 x4 x5 where
    rows: "rows X = [(0, x0), (4, x4), (5, x5)]"
    and v: "x0 ''date'' = Stamp (2021, 8, 14)" "x0 ''y'' = Whole 3" "x0 ''year'' = Whole 2020"
      "x4 ''date'' = Stamp (2024, 8, 15)" "x4 ''y'' = Whole 1" "x4 ''year'' = Whole 2024"
      "x5 ''date'' = Stamp (2025, 1, 5)" "x5 ''y'' = Whole 2" "x5 ''year'' = Whole 2025"
    by blast
  have len: "length (body t) = 3" by (simp add: bod rows)
  have cells: "map (\<lambda>row. (row ! 0, row ! 3, row ! 4)) (body t) =
       [(Stamp (2021, 8, 14), Whole 3, Whole 2020), (Stamp (2024, 8, 15), Whole 1, Whole 2024),
        (Stamp (2025, 1, 5), Whole 2, Whole 2025)]"
    by (simp add: bod rows head' v)
  have tot: "total (diagnostics X0) = 3" using total by (simp add: rows)
  from run t head' len cells tot show ?thesis
    by (intro exI [of _ "diagnostics X0"] exI [of _ t]
        exI [of _ "sample_files\<lparr>data_dir := True, stage1_features := Some (to_csv (out_cols X0) X0)\<rparr>"])
      simp
qed

subsection \<open>The drop of line 45\<close>

lemma index_encode:
  "index (encode (build_X L (read_csv f))) =
     filter (\<lambda>i. retained L (records f ! i)) [0..<length (records f)]"
  using map_fst_filter_enumerate [of "retained L" 0 "records f"]
  by (simp add: index_def rows_encode map_fst_map_rows read_csv_def)

text \<open>
  Claim C2, evaluated on the sample file, whose row 3 has a date and no result. Line 45
  asks \<open>dropna\<close> to drop on \<open>result\<close>, as the claim says. With a pandas whose
  \<open>astype(str)\<close> turns a missing value into the text \<open>nan\<close> (before 3.0; the sample
  library), the result column has no missing value left when line 45 runs: row 3 is kept
  there with the result \<open>NAN\<close>, and leaves only at line 50, with the rows whose result
  maps to no label. With a pandas whose \<open>astype(str)\<close> keeps the value missing, line 45
  drops the row.
\<close>

theorem missing_result_survives_build_X:
  "isna ((records sample_csv ! 3) ''FTResult'') \<and> \<not> keeps_na sample_pandas \<and>
   map (\<lambda>(i, x). (i, x ''result'')) (rows (build_X sample_pandas (read_csv sample_csv))) =
     [(0, Txt ''H''), (2, Txt '' H''), (3, Txt ''NAN''), (4, Txt ''A''), (5, Txt ''D''), (6, Txt ''P'')] \<and>
   index (encode (build_X sample_pandas (read_csv sample_csv))) = [0, 4, 5] \<and>
   index (build_X (sample_pandas\<lparr>keeps_na := True\<rparr>) (read_csv sample_csv)) = [0, 2, 4, 5, 6]"
proof -
  have kept: "filter (\<lambda>(i, r). \<not> isna (to_datetime_coerce sample_pandas (r ''MatchDate'')) \<and>
          \<not> (keeps_na sample_pandas \<and> isna (r ''FTResult'')))
        (rows (read_csv sample_csv)) =
      [(0, records sample_csv ! 0), (2, records sample_csv ! 2), (3, records sample_csv ! 3),
       (4, records sample_csv ! 4), (5, records sample_csv ! 5), (6, records sample_csv ! 6)]"
    by (simp add: sample_defs read_csv_def enumerate_eq_zip upt_rec)
  have a: "map (\<lambda>(i, x). (i, x ''result'')) (rows (build_X sample_pandas (read_csv sample_csv))) =
     [(0, Txt ''H''), (2, Txt '' H''), (3, Txt ''NAN''), (4, Txt ''A''), (5, Txt ''D''), (6, Txt ''P'')]"
    unfolding rows_build_X kept
    by (simp add: map_rows_def X_dict_fields result_cell_def sample_csv_def match_row_def
        record_of_def upper_def upper_char_def sample_pandas_def)
  have b: "isna ((records sample_csv ! 3) ''FTResult'')"
    by (simp add: sample_csv_def match_row_def record_of_def)
  have c: "\<not> keeps_na sample_pandas" by (simp add: sample_pandas_def)
  have d: "index (encode (build_X sample_pandas (read_csv sample_csv))) = [0, 4, 5]"
    unfolding index_encode by (simp add: sample_defs upt_rec)
  have e: "index (build_X (sample_pandas\<lparr>keeps_na := True\<rparr>) (read_csv sample_csv)) = [0, 2, 4, 5, 6]"
    unfolding index_def rows_build_X map_fst_map_rows
    by (simp add: sample_defs read_csv_def enumerate_eq_zip upt_rec)
  from b c a d e show ?thesis by (intro conjI)
qed

end
